theory Spec2Isabelle
  imports Main "HOL-Library.AList"
begin

section \<open>JavaScript values\<close>

text \<open>
  The values the bid service and the allocation list handle are JSON-like: request
  objects built by the UI, response bodies decoded by the HTTP client. Numbers are the
  integer-valued ones (plus \<open>NaN\<close>); the code only tests them for zero, prints them and
  builds dates from them. An object is its list of own properties in insertion order;
  strings are byte strings.
\<close>

datatype jsval =
    JUndefined
  | JNull
  | JBool bool
  | JNum int
  | JNaN
  | JStr string
  | JArr "jsval list"
  | JObj "(string \<times> jsval) list"

text \<open>ToBoolean: what \<open>!x\<close>, \<open>x || y\<close>, \<open>x && y\<close> and \<open>x ? a : b\<close> test.\<close>

fun truthy :: "jsval \<Rightarrow> bool" where
  "truthy JUndefined = False"
| "truthy JNull = False"
| "truthy (JBool b) = b"
| "truthy (JNum n) = (n \<noteq> 0)"
| "truthy JNaN = False"
| "truthy (JStr s) = (s \<noteq> [])"
| "truthy (JArr xs) = True"
| "truthy (JObj kvs) = True"

definition nullish :: "jsval \<Rightarrow> bool" where
  "nullish v = (v = JUndefined \<or> v = JNull)"

text \<open>\<open>a || b\<close> on values.\<close>

definition js_or :: "jsval \<Rightarrow> jsval \<Rightarrow> jsval" where
  "js_or a b = (if truthy a then a else b)"

subsection \<open>Conversion to string\<close>

fun show_nat :: "nat \<Rightarrow> string" where
  "show_nat n =
     (if n < 10 then [char_of (48 + n)]
      else show_nat (n div 10) @ [char_of (48 + n mod 10)])"

declare show_nat.simps [simp del]

definition show_int :: "int \<Rightarrow> string" where
  "show_int n = (if n < 0 then CHR ''-'' # show_nat (nat (- n)) else show_nat (nat n))"

fun join_strings :: "string \<Rightarrow> string list \<Rightarrow> string" where
  "join_strings sep [] = []"
| "join_strings sep [x] = x"
| "join_strings sep (x # y # ys) = x @ sep @ join_strings sep (y # ys)"

text \<open>
  ToString, as template literals, \<open>URLSearchParams.append\<close> and \<open>new Error(m)\<close> apply
  it. An array prints its elements joined by a comma, \<open>undefined\<close> and \<open>null\<close> elements
  as the empty string; a plain object (one that defines no \<open>toString\<close> or \<open>valueOf\<close> of
  its own) prints as \<open>[object Object]\<close>. Integers print in decimal (JavaScript does so
  below \<open>10^21\<close>).
\<close>

fun toString_js :: "jsval \<Rightarrow> string" where
  "toString_js JUndefined = ''undefined''"
| "toString_js JNull = ''null''"
| "toString_js (JBool b) = (if b then ''true'' else ''false'')"
| "toString_js (JNum n) = show_int n"
| "toString_js JNaN = ''NaN''"
| "toString_js (JStr s) = s"
| "toString_js (JArr xs) =
     join_strings '',''
       (map (\<lambda>x. if x = JUndefined \<or> x = JNull then [] else toString_js x) xs)"
| "toString_js (JObj kvs) = ''[object Object]''"

text \<open>\<open>Array.prototype.join(sep)\<close>.\<close>

definition array_join :: "string \<Rightarrow> jsval list \<Rightarrow> string" where
  "array_join sep xs =
     join_strings sep (map (\<lambda>x. if nullish x then [] else toString_js x) xs)"

subsection \<open>Properties\<close>

text \<open>
  \<open>js_get v k\<close> is \<open>v.k\<close> for a value that is neither \<open>undefined\<close> nor \<open>null\<close>, for the
  property names the source reads (\<open>farmerNic\<close>, \<open>status\<close>, \<open>bidOffers\<close>, \<open>length\<close>, ...):
  none of them is inherited from a prototype, but \<open>length\<close> of a string or an array.
\<close>

fun js_get :: "jsval \<Rightarrow> string \<Rightarrow> jsval" where
  "js_get (JObj kvs) k = (case map_of kvs k of Some v \<Rightarrow> v | None \<Rightarrow> JUndefined)"
| "js_get (JStr s) k = (if k = ''length'' then JNum (int (length s)) else JUndefined)"
| "js_get (JArr xs) k = (if k = ''length'' then JNum (int (length xs)) else JUndefined)"
| "js_get v k = JUndefined"

text \<open>\<open>v?.k\<close>\<close>

definition opt_prop :: "jsval \<Rightarrow> string \<Rightarrow> jsval" where
  "opt_prop v k = (if nullish v then JUndefined else js_get v k)"

fun index_entries :: "nat \<Rightarrow> jsval list \<Rightarrow> (string \<times> jsval) list" where
  "index_entries i [] = []"
| "index_entries i (x # xs) = (show_nat i, x) # index_entries (Suc i) xs"

text \<open>
  The own enumerable properties, as object spread \<open>{...v}\<close> and \<open>Object.entries(v)\<close>
  list them: the characters of a string and the elements of an array under their
  indices, nothing for the other primitives.
\<close>

fun own_entries :: "jsval \<Rightarrow> (string \<times> jsval) list" where
  "own_entries (JObj kvs) = kvs"
| "own_entries (JStr s) = index_entries 0 (map (\<lambda>c. JStr [c]) s)"
| "own_entries (JArr xs) = index_entries 0 xs"
| "own_entries v = []"

subsection \<open>parseInt\<close>

definition is_space :: "char \<Rightarrow> bool" where
  "is_space c = (c \<in> set [CHR 0x09, CHR 0x0A, CHR 0x0B, CHR 0x0C, CHR 0x0D, CHR '' ''])"

definition digit_value :: "char \<Rightarrow> nat option" where
  "digit_value c =
     (let n = (of_char c :: nat) in
      if 48 \<le> n \<and> n \<le> 57 then Some (n - 48)
      else if 97 \<le> n \<and> n \<le> 122 then Some (n - 87)
      else if 65 \<le> n \<and> n \<le> 90 then Some (n - 55)
      else None)"

definition radix_digit :: "nat \<Rightarrow> char \<Rightarrow> bool" where
  "radix_digit r c = (case digit_value c of None \<Rightarrow> False | Some d \<Rightarrow> d < r)"

definition digits_value :: "nat \<Rightarrow> string \<Rightarrow> int" where
  "digits_value r ds =
     foldl (\<lambda>acc c. acc * int r + (case digit_value c of None \<Rightarrow> 0 | Some d \<Rightarrow> int d)) 0 ds"

text \<open>
  \<open>parseInt(s)\<close> with no radix: leading white space and a sign are skipped, a \<open>0x\<close>
  prefix selects radix 16, and the longest prefix of digits is read; \<open>None\<close> is \<open>NaN\<close>.
\<close>

definition parseInt_string :: "string \<Rightarrow> int option" where
  "parseInt_string s =
     (let s0 = dropWhile is_space s;
          neg = (s0 \<noteq> [] \<and> hd s0 = CHR ''-'');
          s1 = (if s0 \<noteq> [] \<and> (hd s0 = CHR ''-'' \<or> hd s0 = CHR ''+'') then tl s0 else s0);
          hex = (case s1 of
                   a # b # rest \<Rightarrow> a = CHR ''0'' \<and> (b = CHR ''x'' \<or> b = CHR ''X'')
                 | _ \<Rightarrow> False);
          r = (if hex then 16 else 10);
          s2 = (if hex then drop 2 s1 else s1);
          z = takeWhile (radix_digit r) s2
      in if z = [] then None
         else Some ((if neg then - 1 else 1) * digits_value r z))"

definition parseInt :: "jsval \<Rightarrow> int option" where
  "parseInt v = parseInt_string (toString_js v)"

section \<open>The host environment\<close>

text \<open>
  What the JavaScript engine supplies and the source only calls: the clock, the time
  zone, the calendar, the parsing and printing of dates, the numeric value of a string,
  and the wording of the errors the engine itself throws.
  \<^item> \<open>now\<close> is the time value of \<open>new Date()\<close>;
  \<^item> \<open>localTZA t isUTC\<close> is the offset of local time, in milliseconds, at the UTC time
    \<open>t\<close> (\<open>isUTC\<close>) or at the local time \<open>t\<close>;
  \<^item> \<open>monthStart d\<close> is the day number of the first day of the month day \<open>d\<close> lies in;
  \<^item> \<open>dateParse\<close> is \<open>Date.parse\<close>, \<open>toISO\<close> and \<open>toLocaleDate\<close> print a valid time value
    as \<open>toISOString\<close> and \<open>toLocaleDateString\<close> do;
  \<open>stringPositive s\<close> says whether the number the string \<open>s\<close> converts to is positive.
\<close>

datatype builtin_error =
    ReadOfNullish jsval string
  | NotAFunction string
  | InvalidTimeValue
  | NullToObject
  | DestructureNullish jsval

record env =
  now :: int
  localTZA :: "int \<Rightarrow> bool \<Rightarrow> int"
  monthStart :: "int \<Rightarrow> int"
  dateParse :: "string \<Rightarrow> int option"
  toISO :: "int \<Rightarrow> string"
  toLocaleDate :: "int \<Rightarrow> string"
  stringPositive :: "string \<Rightarrow> bool"
  engineMessage :: "builtin_error \<Rightarrow> string"

section \<open>Requests, responses, errors and effects\<close>

datatype http_method = GET | POST | PUT

datatype query =
    NoParams
  | SearchParams "(string \<times> string) list"
  | PlainParams "(string \<times> jsval) list"

record request =
  verb :: http_method
  url :: string
  body :: jsval
  params :: query
  signal :: jsval

record http_response =
  status :: int
  data :: jsval

text \<open>
  An error object: \<open>message\<close>, and for the errors of the HTTP client \<open>code\<close>,
  \<open>response\<close> and \<open>config\<close>. \<open>new Error(m)\<close> has the message only.
\<close>

record js_error =
  message :: string
  code :: "string option"
  response :: "http_response option"
  config :: "request option"

definition new_Error :: "string \<Rightarrow> js_error" where
  "new_Error m = \<lparr>message = m, code = None, response = None, config = None\<rparr>"

datatype log_arg = LVal jsval | LStr string | LErr js_error | LResp http_response

datatype event = Net request | Console string "log_arg list"

type_synonym 'a comp = "event list \<times> (js_error + 'a)"

type_synonym transport = "request \<Rightarrow> js_error + http_response"

definition net_calls :: "event list \<Rightarrow> request list" where
  "net_calls evs = concat (map (\<lambda>ev. case ev of Net r \<Rightarrow> [r] | Console s args \<Rightarrow> []) evs)"

definition lift :: "js_error + 'a \<Rightarrow> 'a comp" where
  "lift r = ([], r)"

definition and_then :: "'a comp \<Rightarrow> ('a \<Rightarrow> 'b comp) \<Rightarrow> 'b comp" where
  "and_then m f =
     (case m of
        (evs, Inl e) \<Rightarrow> (evs, Inl e)
      | (evs, Inr v) \<Rightarrow> (case f v of (evs', r) \<Rightarrow> (evs @ evs', r)))"

text \<open>\<open>try { body } catch (error) { throw handler(error) }\<close>\<close>

definition try_catch :: "'a comp \<Rightarrow> (js_error \<Rightarrow> event list \<times> js_error) \<Rightarrow> 'a comp" where
  "try_catch m handler =
     (case m of
        (evs, Inr v) \<Rightarrow> (evs, Inr v)
      | (evs, Inl e) \<Rightarrow> (case handler e of (evs', e') \<Rightarrow> (evs @ evs', Inl e')))"

definition get_prop :: "env \<Rightarrow> jsval \<Rightarrow> string \<Rightarrow> js_error + jsval" where
  "get_prop env v k =
     (if nullish v then Inl (new_Error (engineMessage env (ReadOfNullish v k)))
      else Inr (js_get v k))"


definition bind_result :: "js_error + 'a \<Rightarrow> ('a \<Rightarrow> js_error + 'b) \<Rightarrow> js_error + 'b" where
  "bind_result r f = (case r of Inl e \<Rightarrow> Inl e | Inr v \<Rightarrow> f v)"

fun map_result :: "('a \<Rightarrow> js_error + 'b) \<Rightarrow> 'a list \<Rightarrow> js_error + 'b list" where
  "map_result f [] = Inr []"
| "map_result f (x # xs) =
     (case f x of
        Inl e \<Rightarrow> Inl e
      | Inr y \<Rightarrow> (case map_result f xs of Inl e \<Rightarrow> Inl e | Inr ys \<Rightarrow> Inr (y # ys)))"

text \<open>
  \<open>v.map(f)\<close> where \<open>f\<close> may throw: only an array has a \<open>map\<close> function (decoded JSON
  holds no functions), and the first exception ends the traversal.
\<close>

definition call_map :: "env \<Rightarrow> string \<Rightarrow> jsval \<Rightarrow> (jsval \<Rightarrow> js_error + jsval) \<Rightarrow> js_error + jsval list" where
  "call_map env name v f =
     (if nullish v then Inl (new_Error (engineMessage env (ReadOfNullish v ''map'')))
      else case v of
             JArr xs \<Rightarrow> map_result f xs
           | _ \<Rightarrow> Inl (new_Error (engineMessage env (NotAFunction name))))"

text \<open>
  \<open>v > 0\<close>: the operand is converted to a number; the numeric value of a string is the
  host's.
\<close>

definition js_gt0 :: "env \<Rightarrow> jsval \<Rightarrow> bool" where
  "js_gt0 env v =
     (case v of
        JBool b \<Rightarrow> b
      | JNum n \<Rightarrow> 0 < n
      | JStr s \<Rightarrow> stringPositive env s
      | JArr xs \<Rightarrow> stringPositive env (toString_js v)
      | _ \<Rightarrow> False)"

definition object_entries :: "env \<Rightarrow> jsval \<Rightarrow> js_error + (string \<times> jsval) list" where
  "object_entries env v =
     (if nullish v then Inl (new_Error (engineMessage env NullToObject))
      else Inr (own_entries v))"

section \<open>Dates\<close>

text \<open>
  A \<open>Date\<close> is its time value, milliseconds since the epoch, or \<open>None\<close> for an invalid
  date. Local time and the day arithmetic follow ECMA-262: \<open>getDate\<close> is the day number
  minus the day number of the first of the month, plus one, and \<open>setDate\<close> counts from
  that same first of the month.
\<close>

definition msPerDay :: int where
  "msPerDay = 86400000"

definition Day :: "int \<Rightarrow> int" where
  "Day t = t div msPerDay"

definition TimeWithinDay :: "int \<Rightarrow> int" where
  "TimeWithinDay t = t mod msPerDay"

definition MakeDate :: "int \<Rightarrow> int \<Rightarrow> int" where
  "MakeDate day time = day * msPerDay + time"

definition MakeTime :: "int \<Rightarrow> int \<Rightarrow> int \<Rightarrow> int \<Rightarrow> int" where
  "MakeTime h m s ms = h * 3600000 + m * 60000 + s * 1000 + ms"

definition TimeClip :: "int \<Rightarrow> int option" where
  "TimeClip t = (if \<bar>t\<bar> > 8640000000000000 then None else Some t)"

definition LocalTime :: "env \<Rightarrow> int \<Rightarrow> int" where
  "LocalTime env t = t + localTZA env t True"

definition UTC :: "env \<Rightarrow> int \<Rightarrow> int" where
  "UTC env t = t - localTZA env t False"

text \<open>\<open>new Date()\<close> and \<open>new Date(value)\<close>\<close>

definition new_Date_now :: "env \<Rightarrow> int option" where
  "new_Date_now env = Some (now env)"

definition new_Date :: "env \<Rightarrow> jsval \<Rightarrow> int option" where
  "new_Date env v =
     (case v of
        JUndefined \<Rightarrow> None
      | JNull \<Rightarrow> TimeClip 0
      | JBool b \<Rightarrow> TimeClip (if b then 1 else 0)
      | JNum n \<Rightarrow> TimeClip n
      | JNaN \<Rightarrow> None
      | JStr s \<Rightarrow> Option.bind (dateParse env s) TimeClip
      | _ \<Rightarrow> Option.bind (dateParse env (toString_js v)) TimeClip)"

definition getDate :: "env \<Rightarrow> int option \<Rightarrow> int option" where
  "getDate env d =
     (case d of
        None \<Rightarrow> None
      | Some t \<Rightarrow> (let tl = LocalTime env t in Some (Day tl - monthStart env (Day tl) + 1)))"

definition setDate :: "env \<Rightarrow> int option \<Rightarrow> int option \<Rightarrow> int option" where
  "setDate env d date =
     (case d of
        None \<Rightarrow> None
      | Some t \<Rightarrow>
          (case date of
             None \<Rightarrow> None
           | Some dt \<Rightarrow>
               (let tl = LocalTime env t
                in TimeClip (UTC env (MakeDate (monthStart env (Day tl) + dt - 1) (TimeWithinDay tl))))))"

definition setHours :: "env \<Rightarrow> int option \<Rightarrow> int \<Rightarrow> int \<Rightarrow> int \<Rightarrow> int \<Rightarrow> int option" where
  "setHours env d h m s ms =
     (case d of
        None \<Rightarrow> None
      | Some t \<Rightarrow> TimeClip (UTC env (MakeDate (Day (LocalTime env t)) (MakeTime h m s ms))))"

definition toISOString :: "env \<Rightarrow> int option \<Rightarrow> js_error + string" where
  "toISOString env d =
     (case d of
        None \<Rightarrow> Inl (new_Error (engineMessage env InvalidTimeValue))
      | Some t \<Rightarrow> Inr (toISO env t))"

definition toLocaleDateString :: "env \<Rightarrow> int option \<Rightarrow> string" where
  "toLocaleDateString env d = (case d of None \<Rightarrow> ''Invalid Date'' | Some t \<Rightarrow> toLocaleDate env t)"

text \<open>\<open>a - b\<close> on numbers, \<open>None\<close> being \<open>NaN\<close>.\<close>

definition num_sub :: "int option \<Rightarrow> int option \<Rightarrow> int option" where
  "num_sub a b = (case a of None \<Rightarrow> None | Some x \<Rightarrow> (case b of None \<Rightarrow> None | Some y \<Rightarrow> Some (x - y)))"

section \<open>The shared HTTP client (src/api/axios.js)\<close>

definition response_fulfilled :: "http_response \<Rightarrow> http_response" where
  "response_fulfilled resp = resp"

text \<open>
  The rejection handler of the response interceptor: one \<open>console.error\<close> line chosen by
  the status or the error code, then \<open>Promise.reject(error)\<close>. The 404 line reads
  \<open>error.config.url\<close>.
\<close>

definition response_rejected :: "env \<Rightarrow> js_error \<Rightarrow> event list \<times> js_error" where
  "response_rejected env error =
     (case response error of
        Some r \<Rightarrow>
          (if status r = 500 then ([Console ''Server Error:'' [LVal (data r)]], error)
           else if status r = 404 then
             (case config error of
                None \<Rightarrow> ([], new_Error (engineMessage env (ReadOfNullish JUndefined ''url'')))
              | Some c \<Rightarrow> ([Console ''API Not Found:'' [LStr (url c)]], error))
           else ([Console (''Error: '' @ show_int (status r)) [LVal (data r)]], error))
      | None \<Rightarrow>
          (if code error = Some ''ERR_NETWORK''
           then ([Console ''Network Error: Cannot connect to backend server'' []], error)
           else ([], error)))"

text \<open>
  One call through the client: the transport (network and backend) answers the request
  with a response or an error, and the interceptor sees the answer.
\<close>

definition axios_request :: "env \<Rightarrow> transport \<Rightarrow> request \<Rightarrow> http_response comp" where
  "axios_request env net req =
     (case net req of
        Inr r \<Rightarrow> ([Net req], Inr (response_fulfilled r))
      | Inl e \<Rightarrow> (case response_rejected env e of (evs, e') \<Rightarrow> (Net req # evs, Inl e')))"

definition axios_get :: "env \<Rightarrow> transport \<Rightarrow> string \<Rightarrow> query \<Rightarrow> jsval \<Rightarrow> http_response comp" where
  "axios_get env net u p sg =
     axios_request env net \<lparr>verb = GET, url = u, body = JUndefined, params = p, signal = sg\<rparr>"

definition axios_post :: "env \<Rightarrow> transport \<Rightarrow> string \<Rightarrow> jsval \<Rightarrow> query \<Rightarrow> http_response comp" where
  "axios_post env net u d p =
     axios_request env net \<lparr>verb = POST, url = u, body = d, params = p, signal = JUndefined\<rparr>"

definition axios_put :: "env \<Rightarrow> transport \<Rightarrow> string \<Rightarrow> jsval \<Rightarrow> query \<Rightarrow> http_response comp" where
  "axios_put env net u d p =
     axios_request env net \<lparr>verb = PUT, url = u, body = d, params = p, signal = JUndefined\<rparr>"

section \<open>The bid service (src/services/bidService.jsx)\<close>

definition baseURL :: string where
  "baseURL = ''/bids''"

text \<open>\<open>error.response?.data?.message\<close> and \<open>error.response?.status\<close>\<close>

definition response_message :: "js_error \<Rightarrow> jsval" where
  "response_message error =
     (case response error of None \<Rightarrow> JUndefined | Some r \<Rightarrow> opt_prop (data r) ''message'')"

definition response_status :: "js_error \<Rightarrow> int option" where
  "response_status error = (case response error of None \<Rightarrow> None | Some r \<Rightarrow> Some (status r))"

definition handleError :: "js_error \<Rightarrow> event list \<times> js_error" where
  "handleError error =
     ([Console ''API Error:'' [case response error of Some r \<Rightarrow> LResp r | None \<Rightarrow> LErr error]],
      if truthy (response_message error) then new_Error (toString_js (response_message error))
      else if code error = Some ''ERR_NETWORK''
        then new_Error ''Cannot connect to server. Please check your connection.''
      else if code error = Some ''ECONNABORTED''
        then new_Error ''Request timeout - please try again.''
      else if response_status error = Some 400
        then new_Error ''Invalid request. Please check your input.''
      else if response_status error = Some 401
        then new_Error ''Please log in to continue.''
      else if response_status error = Some 403
        then new_Error ''You do not have permission to perform this action.''
      else if response_status error = Some 404
        then new_Error ''The requested resource was not found.''
      else if response_status error = Some 409
        then new_Error ''This operation conflicts with an existing resource.''
      else if (case response_status error of None \<Rightarrow> False | Some s \<Rightarrow> 500 \<le> s)
        then new_Error ''Server error. Please try again later.''
      else new_Error (if message error \<noteq> [] then message error
                      else ''An unexpected error occurred.''))"

definition createBid :: "env \<Rightarrow> transport \<Rightarrow> jsval \<Rightarrow> jsval comp" where
  "createBid env net bidCreateRequest =
     try_catch
       (and_then (lift (get_prop env bidCreateRequest ''farmerNic'')) (\<lambda>farmerNic.
          if \<not> truthy farmerNic then lift (Inl (new_Error ''Farmer NIC is required''))
          else
            (let harvestDate =
                   setHours env (new_Date env (js_get bidCreateRequest ''harvestDate'')) 12 0 0 0
             in and_then (lift (toISOString env harvestDate)) (\<lambda>iso.
                and_then
                  (axios_post env net baseURL
                     (JObj (AList.update ''status'' (JStr ''ACTIVE'')
                             (AList.update ''harvestDate'' (JStr iso)
                               (own_entries bidCreateRequest))))
                     NoParams)
                  (\<lambda>response. lift (Inr (data response)))))))
       handleError"


text \<open>
  The record \<open>getAllBids\<close> builds from one element of the response: the element's own
  properties, then \<open>bidOffers\<close>, \<open>buyerNic\<close>, \<open>winningBidPrice\<close> and \<open>createdAt\<close>.
\<close>

definition bid_view :: "env \<Rightarrow> jsval \<Rightarrow> js_error + jsval" where
  "bid_view env bid =
     bind_result (get_prop env bid ''bidOffers'') (\<lambda>offers.
       bind_result
         (if truthy (js_get bid ''winningBuyerNic'') then Inr (js_get bid ''winningBuyerNic'')
          else if truthy offers \<and> js_gt0 env (js_get offers ''length'')
            then bind_result
                   (call_map env ''bid.bidOffers.map'' offers
                      (\<lambda>offer. get_prop env offer ''buyerNic''))
                   (\<lambda>nics. Inr (JStr (array_join '', '' nics)))
          else Inr (JStr ''-''))
         (\<lambda>buyerNic.
            Inr (JObj
              (AList.update ''createdAt''
                 (if truthy (js_get bid ''postedDate'')
                  then JStr (toLocaleDateString env (new_Date env (js_get bid ''postedDate'')))
                  else JStr ''Invalid Date'')
              (AList.update ''winningBidPrice'' (js_or (js_get bid ''winningBidAmount'') JNull)
              (AList.update ''buyerNic'' buyerNic
              (AList.update ''bidOffers'' (js_or offers (JArr []))
              (own_entries bid))))))))"

text \<open>
  The query of \<open>getAllBids\<close>: \<open>status\<close>, \<open>fromDate\<close>, \<open>searchTerm\<close>, appended in this
  order to a \<open>URLSearchParams\<close>.
\<close>

definition all_bids_params :: "env \<Rightarrow> jsval \<Rightarrow> js_error + (string \<times> string) list" where
  "all_bids_params env filters =
     (let p1 = (if truthy (js_get filters ''status'') \<and> js_get filters ''status'' \<noteq> JStr ''all''
                then [(''status'', toString_js (js_get filters ''status''))] else [])
      in bind_result
           (if truthy (js_get filters ''dateRange'') then
              (let days = parseInt (js_get filters ''dateRange'');
                   fromDate = new_Date_now env;
                   fromDate' = setDate env fromDate (num_sub (getDate env fromDate) days)
               in bind_result (toISOString env fromDate')
                    (\<lambda>iso. Inr (p1 @ [(''fromDate'', iso)])))
            else Inr p1)
           (\<lambda>p2.
              Inr (if truthy (js_get filters ''searchTerm'')
                   then p2 @ [(''searchTerm'', toString_js (js_get filters ''searchTerm''))]
                   else p2)))"

text \<open>
  \<open>async getAllBids({ signal, ...filters } = {})\<close>: the parameter is destructured
  before the \<open>try\<close> block is entered, so \<open>null\<close> is rejected with the engine's own error.
\<close>

definition getAllBids :: "env \<Rightarrow> transport \<Rightarrow> jsval \<Rightarrow> jsval comp" where
  "getAllBids env net arg =
     (if arg = JNull then lift (Inl (new_Error (engineMessage env (DestructureNullish arg))))
      else
        (let a = (if arg = JUndefined then JObj [] else arg);
             sg = js_get a ''signal'';
             filters = JObj (filter (\<lambda>kv. fst kv \<noteq> ''signal'') (own_entries a))
         in try_catch
              (and_then (lift (all_bids_params env filters)) (\<lambda>ps.
               and_then (axios_get env net (baseURL @ ''/admin/all'') (SearchParams ps) sg)
                 (\<lambda>response.
               and_then (lift (call_map env ''response.data.map'' (data response) (bid_view env)))
                 (\<lambda>bids. lift (Inr (JArr bids))))))
              handleError))"

definition clean_filters :: "(string \<times> jsval) list \<Rightarrow> (string \<times> jsval) list" where
  "clean_filters entries =
     foldl (\<lambda>acc kv.
              if truthy (snd kv) \<and> snd kv \<noteq> JStr ''ALL'' \<and> snd kv \<noteq> JStr []
              then AList.update (fst kv) (snd kv) acc else acc)
       [] entries"

definition getFilteredBids :: "env \<Rightarrow> transport \<Rightarrow> jsval \<Rightarrow> jsval comp" where
  "getFilteredBids env net arg =
     (let filters = (if arg = JUndefined then JObj [] else arg)
      in try_catch
           (and_then (lift (object_entries env filters)) (\<lambda>entries.
            and_then
              (axios_get env net (baseURL @ ''/active'') (PlainParams (clean_filters entries))
                 JUndefined)
              (\<lambda>response. lift (Inr (data response)))))
           handleError)"

definition getFarmerBids :: "env \<Rightarrow> transport \<Rightarrow> jsval \<Rightarrow> jsval comp" where
  "getFarmerBids env net farmerNic =
     try_catch
       (if \<not> truthy farmerNic then lift (Inl (new_Error ''Farmer NIC is required''))
        else and_then
               (axios_get env net (baseURL @ ''/farmer/'' @ toString_js farmerNic) NoParams
                  JUndefined)
               (\<lambda>response. lift (Inr (data response))))
       handleError"

definition getBuyerWinningBids :: "env \<Rightarrow> transport \<Rightarrow> jsval \<Rightarrow> jsval comp" where
  "getBuyerWinningBids env net buyerNic =
     try_catch
       (if \<not> truthy buyerNic then lift (Inl (new_Error ''Buyer NIC is required''))
        else and_then
               (axios_get env net (baseURL @ ''/buyer/'' @ toString_js buyerNic @ ''/winning'')
                  NoParams JUndefined)
               (\<lambda>response. lift (Inr (data response))))
       (\<lambda>error. case handleError error of
                   (evs, e) \<Rightarrow> (Console ''Error in getBuyerWinningBids:'' [LErr error] # evs, e))"

definition getBidDetails :: "env \<Rightarrow> transport \<Rightarrow> jsval \<Rightarrow> jsval comp" where
  "getBidDetails env net bidId =
     try_catch
       (if \<not> truthy bidId then lift (Inl (new_Error ''Bid ID is required''))
        else and_then
               (axios_get env net (baseURL @ ''/'' @ toString_js bidId) NoParams JUndefined)
               (\<lambda>response. lift (Inr (data response))))
       handleError"

definition placeBid :: "env \<Rightarrow> transport \<Rightarrow> jsval \<Rightarrow> jsval comp" where
  "placeBid env net bidOfferRequest =
     try_catch
       (and_then (lift (get_prop env bidOfferRequest ''bidId'')) (\<lambda>bidId.
          if \<not> truthy bidId \<or> \<not> truthy (js_get bidOfferRequest ''buyerNic'')
             \<or> \<not> truthy (js_get bidOfferRequest ''bidAmount'')
          then lift (Inl (new_Error ''Bid ID, Buyer NIC, and bid amount are required''))
          else and_then (axios_post env net (baseURL @ ''/offer'') bidOfferRequest NoParams)
                 (\<lambda>response. lift (Inr (data response)))))
       handleError"

definition acceptBidOffer :: "env \<Rightarrow> transport \<Rightarrow> jsval \<Rightarrow> jsval \<Rightarrow> jsval comp" where
  "acceptBidOffer env net bidId buyerNic =
     try_catch
       (if \<not> truthy bidId \<or> \<not> truthy buyerNic
        then lift (Inl (new_Error ''Bid ID and Buyer NIC are required''))
        else and_then
               (axios_post env net (baseURL @ ''/'' @ toString_js bidId @ ''/accept-offer'') JNull
                  (PlainParams [(''buyerNic'', buyerNic)]))
               (\<lambda>response. lift (Inr (data response))))
       (\<lambda>error.
          if response_status error = Some 500
          then ([], new_Error ''Server error while processing the offer. Please try again.'')
          else handleError error)"

definition cancelBid :: "env \<Rightarrow> transport \<Rightarrow> jsval \<Rightarrow> jsval comp" where
  "cancelBid env net bidId =
     try_catch
       (if \<not> truthy bidId then lift (Inl (new_Error ''Bid ID is required''))
        else and_then
               (axios_post env net (baseURL @ ''/'' @ toString_js bidId @ ''/cancel'') JUndefined
                  NoParams)
               (\<lambda>response. lift (Inr (data response))))
       handleError"

definition updateBidStatus :: "env \<Rightarrow> transport \<Rightarrow> jsval \<Rightarrow> jsval \<Rightarrow> jsval comp" where
  "updateBidStatus env net bidId st =
     try_catch
       (if \<not> truthy bidId \<or> \<not> truthy st
        then lift (Inl (new_Error ''Bid ID and status are required''))
        else and_then
               (axios_put env net (baseURL @ ''/admin/'' @ toString_js bidId @ ''/status'') JNull
                  (PlainParams [(''status'', st)]))
               (\<lambda>response. lift (Inr (data response))))
       handleError"

definition forceCompleteBid :: "env \<Rightarrow> transport \<Rightarrow> jsval \<Rightarrow> jsval \<Rightarrow> jsval \<Rightarrow> jsval comp" where
  "forceCompleteBid env net bidId buyerNic amount =
     try_catch
       (if \<not> truthy bidId \<or> \<not> truthy buyerNic \<or> \<not> truthy amount
        then lift (Inl (new_Error ''Bid ID, Buyer NIC, and amount are required''))
        else and_then
               (axios_put env net
                  (baseURL @ ''/admin/'' @ toString_js bidId @ ''/force-complete'') JNull
                  (PlainParams [(''buyerNic'', buyerNic), (''amount'', amount)]))
               (\<lambda>response. lift (Inr (data response))))
       handleError"

definition getBidStatistics :: "env \<Rightarrow> transport \<Rightarrow> jsval comp" where
  "getBidStatistics env net =
     try_catch
       (and_then (axios_get env net (baseURL @ ''/admin/statistics'') NoParams JUndefined)
          (\<lambda>response. lift (Inr (data response))))
       handleError"

section \<open>The allocation list\<close>

definition getStatusColor :: "jsval \<Rightarrow> string" where
  "getStatusColor st =
     (if st = JStr ''PENDING'' then ''bg-yellow-100 text-yellow-800''
      else if st = JStr ''READY'' then ''bg-blue-100 text-blue-800''
      else if st = JStr ''COLLECTED'' then ''bg-green-100 text-green-800''
      else if st = JStr ''EXPIRED'' then ''bg-red-100 text-red-800''
      else ''bg-gray-100 text-gray-800'')"

text \<open>
  A rendered button: whether it is disabled, and the page its \<open>onClick\<close> handler passes
  to \<open>onPageChange\<close>. A click on a disabled button runs no handler.
\<close>

record button =
  disabled :: bool
  onClick :: int

definition click :: "button \<Rightarrow> int list" where
  "click b = (if disabled b then [] else [onClick b])"

text \<open>
  What \<open>AllocationList\<close> renders from its props, as far as the pagination and the status
  badges go: one badge class per allocation (each allocation an object), and the
  Previous and Next buttons.
\<close>

record allocation_list =
  badges :: "string list"
  previousButton :: button
  nextButton :: button

definition AllocationList :: "jsval list \<Rightarrow> int \<Rightarrow> allocation_list" where
  "AllocationList allocations currentPage =
     \<lparr>badges = map (\<lambda>allocation. ''px-2 py-1 text-xs rounded-full ''
                        @ getStatusColor (js_get allocation ''status'')) allocations,
      previousButton = \<lparr>disabled = (currentPage = 0), onClick = currentPage - 1\<rparr>,
      nextButton = \<lparr>disabled = False, onClick = currentPage + 1\<rparr>\<rparr>"


section \<open>A concrete host and concrete backends\<close>

text \<open>
  A host in a zone with the fixed offset +05:30 and the proleptic Gregorian calendar,
  at the instant 2023-11-14T22:13:20Z. Its \<open>Date.parse\<close> knows one date; the numeric
  value of a string is that of its integer prefix.
\<close>

definition civil :: "int \<Rightarrow> int \<times> int \<times> int" where
  "civil days =
     (let z = days + 719468;
          era = z div 146097;
          doe = z mod 146097;
          yoe = (doe - doe div 1460 + doe div 36524 - doe div 146096) div 365;
          doy = doe - (365 * yoe + yoe div 4 - yoe div 100);
          mp = (5 * doy + 2) div 153;
          d = doy - (153 * mp + 2) div 5 + 1;
          m = (if mp < 10 then mp + 3 else mp - 9);
          y = yoe + era * 400 + (if m \<le> 2 then 1 else 0)
      in (y, m, d))"

definition pad :: "nat \<Rightarrow> int \<Rightarrow> string" where
  "pad w n = replicate (w - length (show_nat (nat n))) CHR ''0'' @ show_nat (nat n)"

definition iso_format :: "int \<Rightarrow> string" where
  "iso_format t =
     (case civil (Day t) of
        (y, m, d) \<Rightarrow>
          (if 0 \<le> y \<and> y \<le> 9999 then pad 4 y
           else (if y < 0 then ''-'' else ''+'') @ pad 6 \<bar>y\<bar>)
          @ ''-'' @ pad 2 m @ ''-'' @ pad 2 d @ ''T''
          @ pad 2 (TimeWithinDay t div 3600000) @ '':''
          @ pad 2 (TimeWithinDay t mod 3600000 div 60000) @ '':''
          @ pad 2 (TimeWithinDay t mod 60000 div 1000) @ ''.''
          @ pad 3 (TimeWithinDay t mod 1000) @ ''Z'')"

definition sample_env :: env where
  "sample_env =
     \<lparr>now = 1700000000000,
      localTZA = (\<lambda>t isUTC. 19800000),
      monthStart = (\<lambda>day. case civil day of (y, m, d) \<Rightarrow> day - (d - 1)),
      dateParse = (\<lambda>s. if s = ''2025-03-10'' then Some 1741564800000 else None),
      toISO = iso_format,
      toLocaleDate = (\<lambda>t. case civil (Day (t + 19800000)) of
                             (y, m, d) \<Rightarrow> show_int m @ ''/'' @ show_int d @ ''/'' @ show_int y),
      stringPositive = (\<lambda>s. case parseInt_string s of None \<Rightarrow> False | Some n \<Rightarrow> 0 < n),
      engineMessage = (\<lambda>b. case b of
          ReadOfNullish v k \<Rightarrow>
            ''Cannot read properties of '' @ toString_js v @ '' (reading '' @ k @ '')''
        | NotAFunction name \<Rightarrow> name @ '' is not a function''
        | InvalidTimeValue \<Rightarrow> ''Invalid time value''
        | NullToObject \<Rightarrow> ''Cannot convert undefined or null to object''
        | DestructureNullish v \<Rightarrow> ''Cannot destructure '' @ toString_js v)\<rparr>"

text \<open>A backend that answers every request with status 200 and the given body.\<close>

definition backend_ok :: "jsval \<Rightarrow> transport" where
  "backend_ok d = (\<lambda>req. Inr \<lparr>status = 200, data = d\<rparr>)"

text \<open>
  The error the HTTP client builds for a response with an error status: it carries the
  response and the request's configuration.
\<close>

definition http_error :: "int \<Rightarrow> jsval \<Rightarrow> request \<Rightarrow> js_error" where
  "http_error st d req =
     \<lparr>message = ''Request failed with status code '' @ show_int st,
      code = Some (if 500 \<le> st then ''ERR_BAD_RESPONSE'' else ''ERR_BAD_REQUEST''),
      response = Some \<lparr>status = st, data = d\<rparr>,
      config = Some req\<rparr>"

definition backend_status :: "int \<Rightarrow> jsval \<Rightarrow> transport" where
  "backend_status st d = (\<lambda>req. Inl (http_error st d req))"

text \<open>No connection: the client's network error, with no response.\<close>

definition network_error :: "request \<Rightarrow> js_error" where
  "network_error req =
     \<lparr>message = ''Network Error'', code = Some ''ERR_NETWORK'', response = None,
      config = Some req\<rparr>"

definition backend_down :: transport where
  "backend_down = (\<lambda>req. Inl (network_error req))"


text \<open>
  An error the HTTP client builds for a response carries the configuration of the
  request: a response with an error status is settled by an error holding
  \<open>response.config\<close>.
\<close>

definition built_by_client :: "js_error \<Rightarrow> bool" where
  "built_by_client e = (response e \<noteq> None \<longrightarrow> config e \<noteq> None)"

section \<open>Basic facts\<close>

lemma net_calls_Nil [simp]: "net_calls [] = []"
  by (simp add: net_calls_def)

lemma net_calls_Net [simp]: "net_calls (Net r # evs) = r # net_calls evs"
  by (simp add: net_calls_def)

lemma net_calls_Console [simp]: "net_calls (Console s args # evs) = net_calls evs"
  by (simp add: net_calls_def)

lemma net_calls_append [simp]: "net_calls (xs @ ys) = net_calls xs @ net_calls ys"
  by (simp add: net_calls_def)

lemma handleError_silent [simp]: "net_calls (fst (handleError e)) = []"
  by (simp add: handleError_def)

lemma response_rejected_silent [simp]: "net_calls (fst (response_rejected env e)) = []"
  by (simp add: response_rejected_def split: option.splits)

lemma handleError_plain:
  "m \<noteq> [] \<Longrightarrow> snd (handleError (new_Error m)) = new_Error m"
  by (simp add: handleError_def new_Error_def response_message_def response_status_def)

lemma try_catch_throw:
  "try_catch (lift (Inl e)) h = (fst (h e), Inl (snd (h e)))"
  by (simp add: try_catch_def lift_def split: prod.splits)

lemma response_rejected_same:
  "built_by_client e \<Longrightarrow> snd (response_rejected env e) = e"
  by (auto simp: response_rejected_def built_by_client_def split: option.splits)

lemma response_rejected_500:
  "response_status e = Some 500 \<Longrightarrow> snd (response_rejected env e) = e"
  by (auto simp: response_rejected_def response_status_def split: option.splits)

lemma call_outcome:
  "and_then (axios_request env net req) (\<lambda>response. lift (Inr (data response)))
     = (case net req of
          Inr r \<Rightarrow> ([Net req], Inr (data r))
        | Inl e \<Rightarrow> (Net req # fst (response_rejected env e), Inl (snd (response_rejected env e))))"
  by (simp add: and_then_def axios_request_def lift_def response_fulfilled_def
           split: sum.splits prod.splits)

lemma try_catch_call:
  "try_catch (and_then (axios_request env net req) (\<lambda>response. lift (Inr (data response)))) h
     = (case net req of
          Inr r \<Rightarrow> ([Net req], Inr (data r))
        | Inl e \<Rightarrow> (Net req # fst (response_rejected env e) @ fst (h (snd (response_rejected env e))),
                    Inl (snd (h (snd (response_rejected env e))))))"
  by (simp add: call_outcome try_catch_def split: sum.splits prod.splits)

lemma handleError_message:
  "response_message e = JStr s \<Longrightarrow> s \<noteq> [] \<Longrightarrow> snd (handleError e) = new_Error s"
  by (simp add: handleError_def)

lemma and_then_lift_Inl [simp]: "and_then (lift (Inl e)) f = ([], Inl e)"
  by (simp add: and_then_def lift_def)

lemma and_then_lift_Inr [simp]: "and_then (lift (Inr v)) f = f v"
  by (simp add: and_then_def lift_def split: prod.splits)

lemma try_catch_Inl: "try_catch ([], Inl e) h = (fst (h e), Inl (snd (h e)))"
  by (simp add: try_catch_def split: prod.splits)

subsection \<open>Operations that check their arguments and make one call\<close>

lemma guarded_call_sent:
  assumes "\<And>x. net_calls (fst (h x)) = []"
      and "r \<in> set (net_calls (fst (try_catch
             (if bad then lift (Inl v)
              else and_then (axios_request env net req) (\<lambda>response. lift (Inr (data response))))
             h)))"
  shows "\<not> bad \<and> r = req"
  using assms
  by (cases bad) (auto simp: try_catch_throw try_catch_call split: sum.splits)

lemma guarded_call_failed:
  assumes "\<not> bad" "net req = Inl e" "built_by_client e"
  shows "snd (try_catch
             (if bad then lift (Inl v)
              else and_then (axios_request env net req) (\<lambda>response. lift (Inr (data response))))
             h) = Inl (snd (h e))"
  using assms by (simp add: try_catch_call response_rejected_same)

lemma guarded_call_message:
  assumes "r \<in> set (net_calls (fst (try_catch
             (if bad then lift (Inl v)
              else and_then (axios_request env net req) (\<lambda>response. lift (Inr (data response))))
             handleError)))"
      and "net r = Inl e" "built_by_client e" "response_message e = JStr s" "s \<noteq> []"
  shows "snd (try_catch
             (if bad then lift (Inl v)
              else and_then (axios_request env net req) (\<lambda>response. lift (Inr (data response))))
             handleError) = Inl (new_Error s)"
proof -
  from guarded_call_sent [OF _ assms(1)] have "\<not> bad" "r = req" by simp_all
  with assms(2-) show ?thesis
    by (simp add: try_catch_call response_rejected_same handleError_message)
qed

lemma getFarmerBids_message:
  assumes sent: "r \<in> set (net_calls (fst (getFarmerBids env net farmerNic)))"
      and fails: "net r = Inl e" and client: "built_by_client e"
      and msg: "response_message e = JStr s" and nonempty: "s \<noteq> []"
  shows "snd (getFarmerBids env net farmerNic) = Inl (new_Error s)"
  using guarded_call_message
          [OF sent [unfolded getFarmerBids_def axios_get_def] fails client msg nonempty]
  by (simp only: getFarmerBids_def axios_get_def)

lemma getBidDetails_message:
  assumes sent: "r \<in> set (net_calls (fst (getBidDetails env net bidId)))"
      and fails: "net r = Inl e" and client: "built_by_client e"
      and msg: "response_message e = JStr s" and nonempty: "s \<noteq> []"
  shows "snd (getBidDetails env net bidId) = Inl (new_Error s)"
  using guarded_call_message
          [OF sent [unfolded getBidDetails_def axios_get_def] fails client msg nonempty]
  by (simp only: getBidDetails_def axios_get_def)

lemma cancelBid_message:
  assumes sent: "r \<in> set (net_calls (fst (cancelBid env net bidId)))"
      and fails: "net r = Inl e" and client: "built_by_client e"
      and msg: "response_message e = JStr s" and nonempty: "s \<noteq> []"
  shows "snd (cancelBid env net bidId) = Inl (new_Error s)"
  using guarded_call_message
          [OF sent [unfolded cancelBid_def axios_post_def] fails client msg nonempty]
  by (simp only: cancelBid_def axios_post_def)

lemma updateBidStatus_message:
  assumes sent: "r \<in> set (net_calls (fst (updateBidStatus env net bidId st)))"
      and fails: "net r = Inl e" and client: "built_by_client e"
      and msg: "response_message e = JStr s" and nonempty: "s \<noteq> []"
  shows "snd (updateBidStatus env net bidId st) = Inl (new_Error s)"
  using guarded_call_message
          [OF sent [unfolded updateBidStatus_def axios_put_def] fails client msg nonempty]
  by (simp only: updateBidStatus_def axios_put_def)

lemma forceCompleteBid_message:
  assumes sent: "r \<in> set (net_calls (fst (forceCompleteBid env net bidId buyerNic amount)))"
      and fails: "net r = Inl e" and client: "built_by_client e"
      and msg: "response_message e = JStr s" and nonempty: "s \<noteq> []"
  shows "snd (forceCompleteBid env net bidId buyerNic amount) = Inl (new_Error s)"
  using guarded_call_message
          [OF sent [unfolded forceCompleteBid_def axios_put_def] fails client msg nonempty]
  by (simp only: forceCompleteBid_def axios_put_def)

lemma getBidStatistics_message:
  assumes sent: "r \<in> set (net_calls (fst (getBidStatistics env net)))"
      and fails: "net r = Inl e" and client: "built_by_client e"
      and msg: "response_message e = JStr s" and nonempty: "s \<noteq> []"
  shows "snd (getBidStatistics env net) = Inl (new_Error s)"
  using sent fails client msg nonempty
  by (auto simp: getBidStatistics_def axios_get_def try_catch_call response_rejected_same
        handleError_message split: sum.splits)

lemma getBuyerWinningBids_message:
  assumes sent: "r \<in> set (net_calls (fst (getBuyerWinningBids env net buyerNic)))"
      and fails: "net r = Inl e" and client: "built_by_client e"
      and msg: "response_message e = JStr s" and nonempty: "s \<noteq> []"
  shows "snd (getBuyerWinningBids env net buyerNic) = Inl (new_Error s)"
proof -
  let ?h = "\<lambda>error. case handleError error of
                   (evs, e) \<Rightarrow> (Console ''Error in getBuyerWinningBids:'' [LErr error] # evs, e)"
  have silent: "\<And>x. net_calls (fst (?h x)) = []"
    by (simp add: handleError_def)
  obtain evs where he: "handleError e = (evs, new_Error s)"
    using handleError_message [OF msg nonempty] by (cases "handleError e") simp
  from guarded_call_sent [of ?h, OF silent sent [unfolded getBuyerWinningBids_def axios_get_def]]
  have "truthy buyerNic" and "net \<lparr>verb = GET,
          url = baseURL @ ''/buyer/'' @ toString_js buyerNic @ ''/winning'', body = JUndefined,
          params = NoParams, signal = JUndefined\<rparr> = Inl e"
    using fails by auto
  then show ?thesis
    using client he
    by (simp add: getBuyerWinningBids_def axios_get_def try_catch_call response_rejected_same)
qed

lemma acceptBidOffer_message:
  assumes sent: "r \<in> set (net_calls (fst (acceptBidOffer env net bidId buyerNic)))"
      and not500: "response_status e \<noteq> Some 500"
      and fails: "net r = Inl e" and client: "built_by_client e"
      and msg: "response_message e = JStr s" and nonempty: "s \<noteq> []"
  shows "snd (acceptBidOffer env net bidId buyerNic) = Inl (new_Error s)"
proof -
  let ?h = "\<lambda>error.
          if response_status error = Some 500
          then ([], new_Error ''Server error while processing the offer. Please try again.'')
          else handleError error"
  have silent: "\<And>x. net_calls (fst (?h x)) = []"
    by simp
  from guarded_call_sent [of ?h, OF silent sent [unfolded acceptBidOffer_def axios_post_def]]
  have "truthy bidId" "truthy buyerNic" and "net \<lparr>verb = POST,
          url = baseURL @ ''/'' @ toString_js bidId @ ''/accept-offer'', body = JNull,
          params = PlainParams [(''buyerNic'', buyerNic)], signal = JUndefined\<rparr> = Inl e"
    using fails by auto
  then show ?thesis
    using client not500 handleError_message [OF msg nonempty]
    by (simp add: acceptBidOffer_def axios_post_def try_catch_call response_rejected_same)
qed

lemma acceptBidOffer_500:
  assumes sent: "r \<in> set (net_calls (fst (acceptBidOffer env net bidId buyerNic)))"
      and fails: "net r = Inl e" and is500: "response_status e = Some 500"
  shows "snd (acceptBidOffer env net bidId buyerNic)
           = Inl (new_Error ''Server error while processing the offer. Please try again.'')"
proof -
  let ?h = "\<lambda>error.
          if response_status error = Some 500
          then ([], new_Error ''Server error while processing the offer. Please try again.'')
          else handleError error"
  have silent: "\<And>x. net_calls (fst (?h x)) = []"
    by simp
  from guarded_call_sent [of ?h, OF silent sent [unfolded acceptBidOffer_def axios_post_def]]
  have "truthy bidId" "truthy buyerNic" and "net \<lparr>verb = POST,
          url = baseURL @ ''/'' @ toString_js bidId @ ''/accept-offer'', body = JNull,
          params = PlainParams [(''buyerNic'', buyerNic)], signal = JUndefined\<rparr> = Inl e"
    using fails by auto
  then show ?thesis
    using is500
    by (simp add: acceptBidOffer_def axios_post_def try_catch_call response_rejected_500)
qed

lemma handleError_5xx:
  assumes "response_status e = Some st" "500 \<le> st" "\<not> truthy (response_message e)"
    "code e \<noteq> Some ''ERR_NETWORK''" "code e \<noteq> Some ''ECONNABORTED''"
  shows "snd (handleError e) = new_Error ''Server error. Please try again later.''"
  using assms by (auto simp: handleError_def)

lemma placeBid_message:
  assumes sent: "r \<in> set (net_calls (fst (placeBid env net req)))"
      and fails: "net r = Inl e" and client: "built_by_client e"
      and msg: "response_message e = JStr s" and nonempty: "s \<noteq> []"
  shows "snd (placeBid env net req) = Inl (new_Error s)"
proof (cases "get_prop env req ''bidId''")
  case (Inl x)
  with sent show ?thesis
    by (simp add: placeBid_def try_catch_Inl)
next
  case (Inr bidId)
  have eq: "placeBid env net req = try_catch
         (if \<not> truthy bidId \<or> \<not> truthy (js_get req ''buyerNic'')
             \<or> \<not> truthy (js_get req ''bidAmount'')
          then lift (Inl (new_Error ''Bid ID, Buyer NIC, and bid amount are required''))
          else and_then
                 (axios_request env net \<lparr>verb = POST, url = baseURL @ ''/offer'', body = req,
                    params = NoParams, signal = JUndefined\<rparr>)
                 (\<lambda>response. lift (Inr (data response))))
         handleError"
    by (simp only: placeBid_def axios_post_def Inr and_then_lift_Inr)
  from guarded_call_message [OF sent [unfolded eq] fails client msg nonempty] show ?thesis
    by (simp only: eq)
qed

lemma getFilteredBids_message:
  assumes sent: "r \<in> set (net_calls (fst (getFilteredBids env net arg)))"
      and fails: "net r = Inl e" and client: "built_by_client e"
      and msg: "response_message e = JStr s" and nonempty: "s \<noteq> []"
  shows "snd (getFilteredBids env net arg) = Inl (new_Error s)"
proof (cases "object_entries env (if arg = JUndefined then JObj [] else arg)")
  case (Inl x)
  with sent show ?thesis
    by (simp add: getFilteredBids_def try_catch_Inl Let_def)
next
  case (Inr entries)
  with sent show ?thesis
    using fails client msg nonempty
    by (auto simp: getFilteredBids_def axios_get_def Let_def try_catch_call
          response_rejected_same handleError_message split: sum.splits)
qed

lemma createBid_unfold:
  "createBid env net req =
     (case get_prop env req ''farmerNic'' of
        Inl x \<Rightarrow> (fst (handleError x), Inl (snd (handleError x)))
      | Inr farmerNic \<Rightarrow>
          if \<not> truthy farmerNic
          then (fst (handleError (new_Error ''Farmer NIC is required'')),
                Inl (snd (handleError (new_Error ''Farmer NIC is required''))))
          else
            (case toISOString env
                    (setHours env (new_Date env (js_get req ''harvestDate'')) 12 0 0 0) of
               Inl x \<Rightarrow> (fst (handleError x), Inl (snd (handleError x)))
             | Inr str \<Rightarrow>
                 try_catch
                   (and_then
                      (axios_request env net
                         \<lparr>verb = POST, url = baseURL,
                          body = JObj (AList.update ''status'' (JStr ''ACTIVE'')
                                   (AList.update ''harvestDate'' (JStr str) (own_entries req))),
                          params = NoParams, signal = JUndefined\<rparr>)
                      (\<lambda>response. lift (Inr (data response))))
                   handleError))"
  by (simp add: createBid_def Let_def try_catch_Inl try_catch_throw axios_post_def
        split: sum.splits)

lemma createBid_message:
  assumes sent: "r \<in> set (net_calls (fst (createBid env net req)))"
      and fails: "net r = Inl e" and client: "built_by_client e"
      and msg: "response_message e = JStr s" and nonempty: "s \<noteq> []"
  shows "snd (createBid env net req) = Inl (new_Error s)"
  using sent fails client msg nonempty
  by (auto simp: createBid_unfold try_catch_call response_rejected_same handleError_message
        split: sum.splits if_splits)


lemma getAllBids_unfold:
  "getAllBids env net arg =
     (if arg = JNull then ([], Inl (new_Error (engineMessage env (DestructureNullish arg))))
      else
        (case all_bids_params env
                (JObj (filter (\<lambda>kv. fst kv \<noteq> ''signal'')
                   (own_entries (if arg = JUndefined then JObj [] else arg)))) of
           Inl x \<Rightarrow> (fst (handleError x), Inl (snd (handleError x)))
         | Inr ps \<Rightarrow>
             (case net \<lparr>verb = GET, url = baseURL @ ''/admin/all'', body = JUndefined,
                         params = SearchParams ps,
                         signal = js_get (if arg = JUndefined then JObj [] else arg) ''signal''\<rparr> of
                Inl e \<Rightarrow>
                  (Net \<lparr>verb = GET, url = baseURL @ ''/admin/all'', body = JUndefined,
                         params = SearchParams ps,
                         signal = js_get (if arg = JUndefined then JObj [] else arg) ''signal''\<rparr>
                     # fst (response_rejected env e)
                     @ fst (handleError (snd (response_rejected env e))),
                   Inl (snd (handleError (snd (response_rejected env e)))))
              | Inr resp \<Rightarrow>
                  (case call_map env ''response.data.map'' (data resp) (bid_view env) of
                     Inl x \<Rightarrow>
                       (Net \<lparr>verb = GET, url = baseURL @ ''/admin/all'', body = JUndefined,
                              params = SearchParams ps,
                              signal = js_get (if arg = JUndefined then JObj [] else arg)
                                         ''signal''\<rparr>
                          # fst (handleError x),
                        Inl (snd (handleError x)))
                   | Inr bids \<Rightarrow>
                       ([Net \<lparr>verb = GET, url = baseURL @ ''/admin/all'', body = JUndefined,
                               params = SearchParams ps,
                               signal = js_get (if arg = JUndefined then JObj [] else arg)
                                          ''signal''\<rparr>],
                        Inr (JArr bids))))))"
  by (simp add: getAllBids_def Let_def lift_def and_then_def try_catch_def axios_get_def
        axios_request_def response_fulfilled_def split: sum.splits prod.splits)

lemma getAllBids_message:
  assumes sent: "r \<in> set (net_calls (fst (getAllBids env net arg)))"
      and fails: "net r = Inl e" and client: "built_by_client e"
      and msg: "response_message e = JStr s" and nonempty: "s \<noteq> []"
  shows "snd (getAllBids env net arg) = Inl (new_Error s)"
  using sent fails client msg nonempty
  by (auto simp: getAllBids_unfold response_rejected_same handleError_message
        split: sum.splits if_splits)

section \<open>An amount of zero is treated as missing\<close>

lemma placeBid_zero:
  assumes "map_of kvs ''bidAmount'' = Some (JNum 0)"
  shows "snd (placeBid env net (JObj kvs))
           = Inl (new_Error ''Bid ID, Buyer NIC, and bid amount are required'')
         \<and> net_calls (fst (placeBid env net (JObj kvs))) = []"
proof -
  have "placeBid env net (JObj kvs)
          = try_catch
              (lift (Inl (new_Error ''Bid ID, Buyer NIC, and bid amount are required'')))
              handleError"
    using assms
    by (simp add: placeBid_def get_prop_def nullish_def and_then_def lift_def)
  then show ?thesis
    by (simp add: try_catch_throw handleError_plain)
qed

lemma forceCompleteBid_zero:
  "snd (forceCompleteBid env net bidId buyerNic (JNum 0))
     = Inl (new_Error ''Bid ID, Buyer NIC, and amount are required'')
   \<and> net_calls (fst (forceCompleteBid env net bidId buyerNic (JNum 0))) = []"
  by (simp add: forceCompleteBid_def try_catch_throw handleError_plain)

text \<open>
  C9. A \<open>placeBid\<close> request whose \<open>bidAmount\<close> is the number 0, and a \<open>forceCompleteBid\<close>
  call whose amount is 0, fail with the message of the missing-field check, and no
  request reaches the network: \<open>!0\<close> is true, so the present amount 0 is taken for a
  missing one.
\<close>

theorem zero_amount_counts_as_missing:
  "(map_of kvs ''bidAmount'' = Some (JNum 0) \<longrightarrow>
      snd (placeBid env net (JObj kvs))
        = Inl (new_Error ''Bid ID, Buyer NIC, and bid amount are required'')
      \<and> net_calls (fst (placeBid env net (JObj kvs))) = [])
   \<and> snd (forceCompleteBid env net bidId buyerNic (JNum 0))
        = Inl (new_Error ''Bid ID, Buyer NIC, and amount are required'')
   \<and> net_calls (fst (forceCompleteBid env net bidId buyerNic (JNum 0))) = []"
  using placeBid_zero forceCompleteBid_zero by blast

theorem zero_amount_counts_as_missing_witness:
  "map_of [(''bidId'', JNum 7), (''buyerNic'', JStr ''B1''), (''bidAmount'', JNum 0)]
      ''bidAmount'' = Some (JNum 0)
   \<and> snd (placeBid sample_env (backend_ok JNull)
        (JObj [(''bidId'', JNum 7), (''buyerNic'', JStr ''B1''), (''bidAmount'', JNum 0)]))
        = Inl (new_Error ''Bid ID, Buyer NIC, and bid amount are required'')
   \<and> net_calls (fst (placeBid sample_env (backend_ok JNull)
        (JObj [(''bidId'', JNum 7), (''buyerNic'', JStr ''B1''), (''bidAmount'', JNum 0)]))) = []
   \<and> snd (forceCompleteBid sample_env (backend_ok JNull) (JNum 7) (JStr ''B1'') (JNum 0))
        = Inl (new_Error ''Bid ID, Buyer NIC, and amount are required'')
   \<and> net_calls (fst (forceCompleteBid sample_env (backend_ok JNull) (JNum 7) (JStr ''B1'')
        (JNum 0))) = []"
proof -
  have h: "map_of [(''bidId'', JNum 7), (''buyerNic'', JStr ''B1''), (''bidAmount'', JNum 0)]
      ''bidAmount'' = Some (JNum 0)"
    by simp
  show ?thesis
    using h zero_amount_counts_as_missing [of
      "[(''bidId'', JNum 7), (''buyerNic'', JStr ''B1''), (''bidAmount'', JNum 0)]"
      sample_env "backend_ok JNull" "JNum 7" "JStr ''B1''"]
    by simp
qed

section \<open>The message of the backend\<close>

text \<open>
  C4 (as amended). When a request an operation sent is answered with an error whose
  response body carries a non-empty \<open>message\<close> string, the operation fails with exactly
  that message, whatever the status or the error code; the one exception is
  \<open>acceptBidOffer\<close> answered with status 500, whose own catch block comes first. The
  statement covers every operation of the service.
\<close>

theorem backend_message_takes_precedence:
  assumes "net r = Inl e" and "built_by_client e"
      and "response_message e = JStr s" and "s \<noteq> []"
  shows "(r \<in> set (net_calls (fst (createBid env net req)))
            \<longrightarrow> snd (createBid env net req) = Inl (new_Error s))
       \<and> (r \<in> set (net_calls (fst (getAllBids env net arg)))
            \<longrightarrow> snd (getAllBids env net arg) = Inl (new_Error s))
       \<and> (r \<in> set (net_calls (fst (getFilteredBids env net arg)))
            \<longrightarrow> snd (getFilteredBids env net arg) = Inl (new_Error s))
       \<and> (r \<in> set (net_calls (fst (getFarmerBids env net farmerNic)))
            \<longrightarrow> snd (getFarmerBids env net farmerNic) = Inl (new_Error s))
       \<and> (r \<in> set (net_calls (fst (getBuyerWinningBids env net buyerNic)))
            \<longrightarrow> snd (getBuyerWinningBids env net buyerNic) = Inl (new_Error s))
       \<and> (r \<in> set (net_calls (fst (getBidDetails env net bidId)))
            \<longrightarrow> snd (getBidDetails env net bidId) = Inl (new_Error s))
       \<and> (r \<in> set (net_calls (fst (placeBid env net req)))
            \<longrightarrow> snd (placeBid env net req) = Inl (new_Error s))
       \<and> (r \<in> set (net_calls (fst (acceptBidOffer env net bidId buyerNic)))
              \<and> response_status e \<noteq> Some 500
            \<longrightarrow> snd (acceptBidOffer env net bidId buyerNic) = Inl (new_Error s))
       \<and> (r \<in> set (net_calls (fst (cancelBid env net bidId)))
            \<longrightarrow> snd (cancelBid env net bidId) = Inl (new_Error s))
       \<and> (r \<in> set (net_calls (fst (updateBidStatus env net bidId st)))
            \<longrightarrow> snd (updateBidStatus env net bidId st) = Inl (new_Error s))
       \<and> (r \<in> set (net_calls (fst (forceCompleteBid env net bidId buyerNic amount)))
            \<longrightarrow> snd (forceCompleteBid env net bidId buyerNic amount) = Inl (new_Error s))
       \<and> (r \<in> set (net_calls (fst (getBidStatistics env net)))
            \<longrightarrow> snd (getBidStatistics env net) = Inl (new_Error s))"
proof (intro conjI impI)
  show "snd (createBid env net req) = Inl (new_Error s)"
    if "r \<in> set (net_calls (fst (createBid env net req)))"
    using that assms by (rule createBid_message)
  show "snd (getAllBids env net arg) = Inl (new_Error s)"
    if "r \<in> set (net_calls (fst (getAllBids env net arg)))"
    using that assms by (rule getAllBids_message)
  show "snd (getFilteredBids env net arg) = Inl (new_Error s)"
    if "r \<in> set (net_calls (fst (getFilteredBids env net arg)))"
    using that assms by (rule getFilteredBids_message)
  show "snd (getFarmerBids env net farmerNic) = Inl (new_Error s)"
    if "r \<in> set (net_calls (fst (getFarmerBids env net farmerNic)))"
    using that assms by (rule getFarmerBids_message)
  show "snd (getBuyerWinningBids env net buyerNic) = Inl (new_Error s)"
    if "r \<in> set (net_calls (fst (getBuyerWinningBids env net buyerNic)))"
    using that assms by (rule getBuyerWinningBids_message)
  show "snd (getBidDetails env net bidId) = Inl (new_Error s)"
    if "r \<in> set (net_calls (fst (getBidDetails env net bidId)))"
    using that assms by (rule getBidDetails_message)
  show "snd (placeBid env net req) = Inl (new_Error s)"
    if "r \<in> set (net_calls (fst (placeBid env net req)))"
    using that assms by (rule placeBid_message)
  show "snd (acceptBidOffer env net bidId buyerNic) = Inl (new_Error s)"
    if "r \<in> set (net_calls (fst (acceptBidOffer env net bidId buyerNic)))
          \<and> response_status e \<noteq> Some 500"
    using that assms by (auto intro: acceptBidOffer_message)
  show "snd (cancelBid env net bidId) = Inl (new_Error s)"
    if "r \<in> set (net_calls (fst (cancelBid env net bidId)))"
    using that assms by (rule cancelBid_message)
  show "snd (updateBidStatus env net bidId st) = Inl (new_Error s)"
    if "r \<in> set (net_calls (fst (updateBidStatus env net bidId st)))"
    using that assms by (rule updateBidStatus_message)
  show "snd (forceCompleteBid env net bidId buyerNic amount) = Inl (new_Error s)"
    if "r \<in> set (net_calls (fst (forceCompleteBid env net bidId buyerNic amount)))"
    using that assms by (rule forceCompleteBid_message)
  show "snd (getBidStatistics env net) = Inl (new_Error s)"
    if "r \<in> set (net_calls (fst (getBidStatistics env net)))"
    using that assms by (rule getBidStatistics_message)
qed


theorem backend_message_takes_precedence_witness:
  "backend_status 409 (JObj [(''message'', JStr ''Bid is already closed'')])
      \<lparr>verb = POST, url = ''/bids/7/cancel'', body = JUndefined, params = NoParams,
         signal = JUndefined\<rparr>
     = Inl (http_error 409 (JObj [(''message'', JStr ''Bid is already closed'')])
         \<lparr>verb = POST, url = ''/bids/7/cancel'', body = JUndefined, params = NoParams,
            signal = JUndefined\<rparr>)
   \<and> built_by_client (http_error 409 (JObj [(''message'', JStr ''Bid is already closed'')])
         \<lparr>verb = POST, url = ''/bids/7/cancel'', body = JUndefined, params = NoParams,
            signal = JUndefined\<rparr>)
   \<and> response_message (http_error 409 (JObj [(''message'', JStr ''Bid is already closed'')])
         \<lparr>verb = POST, url = ''/bids/7/cancel'', body = JUndefined, params = NoParams,
            signal = JUndefined\<rparr>) = JStr ''Bid is already closed''
   \<and> \<lparr>verb = POST, url = ''/bids/7/cancel'', body = JUndefined, params = NoParams,
         signal = JUndefined\<rparr>
       \<in> set (net_calls (fst (cancelBid sample_env
             (backend_status 409 (JObj [(''message'', JStr ''Bid is already closed'')]))
             (JNum 7))))
   \<and> snd (cancelBid sample_env
         (backend_status 409 (JObj [(''message'', JStr ''Bid is already closed'')])) (JNum 7))
       = Inl (new_Error ''Bid is already closed'')"
proof -
  let ?d = "JObj [(''message'', JStr ''Bid is already closed'')]"
  let ?r = "\<lparr>verb = POST, url = ''/bids/7/cancel'', body = JUndefined, params = NoParams,
              signal = JUndefined\<rparr>"
  have fails: "backend_status 409 ?d ?r = Inl (http_error 409 ?d ?r)"
    by (simp add: backend_status_def)
  have client: "built_by_client (http_error 409 ?d ?r)"
    by (simp add: built_by_client_def http_error_def)
  have msg: "response_message (http_error 409 ?d ?r) = JStr ''Bid is already closed''"
    by (simp add: response_message_def http_error_def opt_prop_def nullish_def)
  have nonempty: "''Bid is already closed'' \<noteq> []"
    by simp
  have sent: "?r \<in> set (net_calls (fst (cancelBid sample_env (backend_status 409 ?d) (JNum 7))))"
    by code_simp
  from backend_message_takes_precedence
         [where net = "backend_status 409 ?d" and r = ?r and env = sample_env,
          OF fails client msg nonempty] sent
  have "snd (cancelBid sample_env (backend_status 409 ?d) (JNum 7))
          = Inl (new_Error ''Bid is already closed'')"
    by blast
  with fails client msg sent show ?thesis
    by (intro conjI)
qed


text \<open>
  C4 as stated fails for \<open>acceptBidOffer\<close>: the backend answers status 500 with the
  message \<open>Offer already accepted\<close>, and the operation reports its fixed text instead.
\<close>

theorem accept_offer_500_hides_backend_message:
  "net_calls (fst (acceptBidOffer sample_env
       (backend_status 500 (JObj [(''message'', JStr ''Offer already accepted'')]))
       (JNum 7) (JStr ''B1'')))
     = [\<lparr>verb = POST, url = ''/bids/7/accept-offer'', body = JNull,
          params = PlainParams [(''buyerNic'', JStr ''B1'')], signal = JUndefined\<rparr>]
   \<and> backend_status 500 (JObj [(''message'', JStr ''Offer already accepted'')])
         \<lparr>verb = POST, url = ''/bids/7/accept-offer'', body = JNull,
            params = PlainParams [(''buyerNic'', JStr ''B1'')], signal = JUndefined\<rparr>
       = Inl (http_error 500 (JObj [(''message'', JStr ''Offer already accepted'')])
           \<lparr>verb = POST, url = ''/bids/7/accept-offer'', body = JNull,
              params = PlainParams [(''buyerNic'', JStr ''B1'')], signal = JUndefined\<rparr>)
   \<and> response_message (http_error 500 (JObj [(''message'', JStr ''Offer already accepted'')])
         \<lparr>verb = POST, url = ''/bids/7/accept-offer'', body = JNull,
            params = PlainParams [(''buyerNic'', JStr ''B1'')], signal = JUndefined\<rparr>)
       = JStr ''Offer already accepted''
   \<and> snd (acceptBidOffer sample_env
         (backend_status 500 (JObj [(''message'', JStr ''Offer already accepted'')]))
         (JNum 7) (JStr ''B1''))
       = Inl (new_Error ''Server error while processing the offer. Please try again.'')
   \<and> snd (acceptBidOffer sample_env
         (backend_status 500 (JObj [(''message'', JStr ''Offer already accepted'')]))
         (JNum 7) (JStr ''B1''))
       \<noteq> Inl (new_Error ''Offer already accepted'')"
  by code_simp


section \<open>Status 500 on acceptance\<close>

text \<open>
  C5. An \<open>acceptBidOffer\<close> call whose request is answered with status 500 fails with
  the message \<open>Server error while processing the offer. Please try again.\<close>, which is
  not the text \<open>Server error. Please try again later.\<close> that \<open>handleError\<close> gives a
  status of 500 or more.
\<close>

theorem accept_offer_server_error_message:
  assumes "r \<in> set (net_calls (fst (acceptBidOffer env net bidId buyerNic)))"
      and "net r = Inl e" and "response_status e = Some 500"
  shows "snd (acceptBidOffer env net bidId buyerNic)
           = Inl (new_Error ''Server error while processing the offer. Please try again.'')
       \<and> (\<not> truthy (response_message e) \<and> code e \<noteq> Some ''ERR_NETWORK''
             \<and> code e \<noteq> Some ''ECONNABORTED''
           \<longrightarrow> snd (handleError e) = new_Error ''Server error. Please try again later.'')
       \<and> snd (acceptBidOffer env net bidId buyerNic)
           \<noteq> Inl (new_Error ''Server error. Please try again later.'')"
proof -
  have a: "snd (acceptBidOffer env net bidId buyerNic)
           = Inl (new_Error ''Server error while processing the offer. Please try again.'')"
    using assms by (rule acceptBidOffer_500)
  have b: "snd (handleError e) = new_Error ''Server error. Please try again later.''"
    if "\<not> truthy (response_message e) \<and> code e \<noteq> Some ''ERR_NETWORK''
             \<and> code e \<noteq> Some ''ECONNABORTED''"
    using that assms(3) by (auto intro: handleError_5xx)
  have c: "new_Error ''Server error while processing the offer. Please try again.''
             \<noteq> new_Error ''Server error. Please try again later.''"
    by (simp add: new_Error_def)
  from a b c show ?thesis by simp
qed


theorem accept_offer_server_error_message_witness:
  "\<lparr>verb = POST, url = ''/bids/7/accept-offer'', body = JNull,
      params = PlainParams [(''buyerNic'', JStr ''B1'')], signal = JUndefined\<rparr>
     \<in> set (net_calls (fst (acceptBidOffer sample_env (backend_status 500 JNull)
           (JNum 7) (JStr ''B1''))))
   \<and> backend_status 500 JNull
         \<lparr>verb = POST, url = ''/bids/7/accept-offer'', body = JNull,
            params = PlainParams [(''buyerNic'', JStr ''B1'')], signal = JUndefined\<rparr>
       = Inl (http_error 500 JNull
           \<lparr>verb = POST, url = ''/bids/7/accept-offer'', body = JNull,
              params = PlainParams [(''buyerNic'', JStr ''B1'')], signal = JUndefined\<rparr>)
   \<and> response_status (http_error 500 JNull
         \<lparr>verb = POST, url = ''/bids/7/accept-offer'', body = JNull,
            params = PlainParams [(''buyerNic'', JStr ''B1'')], signal = JUndefined\<rparr>)
       = Some 500
   \<and> snd (acceptBidOffer sample_env (backend_status 500 JNull) (JNum 7) (JStr ''B1''))
       = Inl (new_Error ''Server error while processing the offer. Please try again.'')
   \<and> snd (handleError (http_error 500 JNull
         \<lparr>verb = POST, url = ''/bids/7/accept-offer'', body = JNull,
            params = PlainParams [(''buyerNic'', JStr ''B1'')], signal = JUndefined\<rparr>))
       = new_Error ''Server error. Please try again later.''"
proof -
  let ?r = "\<lparr>verb = POST, url = ''/bids/7/accept-offer'', body = JNull,
      params = PlainParams [(''buyerNic'', JStr ''B1'')], signal = JUndefined\<rparr>"
  have sent: "?r \<in> set (net_calls (fst (acceptBidOffer sample_env (backend_status 500 JNull)
           (JNum 7) (JStr ''B1''))))"
    by code_simp
  have fails: "backend_status 500 JNull ?r = Inl (http_error 500 JNull ?r)"
    by (simp add: backend_status_def)
  have is500: "response_status (http_error 500 JNull ?r) = Some 500"
    by (simp add: response_status_def http_error_def)
  have plain: "\<not> truthy (response_message (http_error 500 JNull ?r))
      \<and> code (http_error 500 JNull ?r) \<noteq> Some ''ERR_NETWORK''
      \<and> code (http_error 500 JNull ?r) \<noteq> Some ''ECONNABORTED''"
    by (simp add: response_message_def http_error_def opt_prop_def nullish_def)
  from accept_offer_server_error_message
         [where net = "backend_status 500 JNull" and r = ?r, OF sent fails is500] plain
  have "snd (acceptBidOffer sample_env (backend_status 500 JNull) (JNum 7) (JStr ''B1''))
       = Inl (new_Error ''Server error while processing the offer. Please try again.'')"
   and "snd (handleError (http_error 500 JNull ?r))
       = new_Error ''Server error. Please try again later.''"
    by blast+
  with sent fails is500 show ?thesis
    by (intro conjI)
qed


section \<open>Missing identifiers\<close>

lemma createBid_missing:
  assumes "\<not> nullish req" "\<not> truthy (js_get req ''farmerNic'')"
  shows "snd (createBid env net req) = Inl (new_Error ''Farmer NIC is required'')
       \<and> net_calls (fst (createBid env net req)) = []"
  using assms by (simp add: createBid_unfold get_prop_def handleError_plain)

lemma getFarmerBids_missing:
  assumes "\<not> truthy farmerNic"
  shows "snd (getFarmerBids env net farmerNic) = Inl (new_Error ''Farmer NIC is required'')
       \<and> net_calls (fst (getFarmerBids env net farmerNic)) = []"
  using assms by (simp add: getFarmerBids_def try_catch_throw handleError_plain)

lemma getBuyerWinningBids_missing:
  assumes "\<not> truthy buyerNic"
  shows "snd (getBuyerWinningBids env net buyerNic) = Inl (new_Error ''Buyer NIC is required'')
       \<and> net_calls (fst (getBuyerWinningBids env net buyerNic)) = []"
proof -
  obtain evs where "handleError (new_Error ''Buyer NIC is required'')
                      = (evs, new_Error ''Buyer NIC is required'')"
    using handleError_plain [of "''Buyer NIC is required''"]
    by (cases "handleError (new_Error ''Buyer NIC is required'')") simp
  moreover from this have "net_calls evs = []"
    using handleError_silent [of "new_Error ''Buyer NIC is required''"] by simp
  ultimately show ?thesis
    using assms by (simp add: getBuyerWinningBids_def try_catch_throw)
qed

lemma getBidDetails_missing:
  assumes "\<not> truthy bidId"
  shows "snd (getBidDetails env net bidId) = Inl (new_Error ''Bid ID is required'')
       \<and> net_calls (fst (getBidDetails env net bidId)) = []"
  using assms by (simp add: getBidDetails_def try_catch_throw handleError_plain)

lemma placeBid_missing:
  assumes "\<not> nullish req"
      and "\<not> truthy (js_get req ''bidId'') \<or> \<not> truthy (js_get req ''buyerNic'')
           \<or> \<not> truthy (js_get req ''bidAmount'')"
  shows "snd (placeBid env net req)
           = Inl (new_Error ''Bid ID, Buyer NIC, and bid amount are required'')
       \<and> net_calls (fst (placeBid env net req)) = []"
proof -
  have "placeBid env net req
          = try_catch
              (lift (Inl (new_Error ''Bid ID, Buyer NIC, and bid amount are required'')))
              handleError"
    using assms by (auto simp: placeBid_def get_prop_def)
  then show ?thesis
    by (simp add: try_catch_throw handleError_plain)
qed

lemma acceptBidOffer_missing:
  assumes "\<not> truthy bidId \<or> \<not> truthy buyerNic"
  shows "snd (acceptBidOffer env net bidId buyerNic)
           = Inl (new_Error ''Bid ID and Buyer NIC are required'')
       \<and> net_calls (fst (acceptBidOffer env net bidId buyerNic)) = []"
proof -
  have "response_status (new_Error ''Bid ID and Buyer NIC are required'') \<noteq> Some 500"
    by (simp add: response_status_def new_Error_def)
  with assms show ?thesis
    by (auto simp: acceptBidOffer_def try_catch_throw handleError_plain)
qed

lemma cancelBid_missing:
  assumes "\<not> truthy bidId"
  shows "snd (cancelBid env net bidId) = Inl (new_Error ''Bid ID is required'')
       \<and> net_calls (fst (cancelBid env net bidId)) = []"
  using assms by (simp add: cancelBid_def try_catch_throw handleError_plain)

lemma updateBidStatus_missing:
  assumes "\<not> truthy bidId \<or> \<not> truthy st"
  shows "snd (updateBidStatus env net bidId st)
           = Inl (new_Error ''Bid ID and status are required'')
       \<and> net_calls (fst (updateBidStatus env net bidId st)) = []"
  using assms by (auto simp: updateBidStatus_def try_catch_throw handleError_plain)

lemma forceCompleteBid_missing:
  assumes "\<not> truthy bidId \<or> \<not> truthy buyerNic \<or> \<not> truthy amount"
  shows "snd (forceCompleteBid env net bidId buyerNic amount)
           = Inl (new_Error ''Bid ID, Buyer NIC, and amount are required'')
       \<and> net_calls (fst (forceCompleteBid env net bidId buyerNic amount)) = []"
  using assms by (auto simp: forceCompleteBid_def try_catch_throw handleError_plain)

text \<open>
  C1. A \<open>createBid\<close> request with no \<open>farmerNic\<close>, and a call of \<open>getFarmerBids\<close>,
  \<open>getBuyerWinningBids\<close>, \<open>getBidDetails\<close>, \<open>placeBid\<close>, \<open>acceptBidOffer\<close>, \<open>cancelBid\<close>,
  \<open>updateBidStatus\<close> or \<open>forceCompleteBid\<close> with a required identifier missing, fails
  with the message of its validation check, and no request reaches the network. An
  absent field reads as \<open>undefined\<close>; the checks reject every falsy value.
\<close>

theorem missing_identifier_fails_before_any_request:
  "(\<not> nullish req \<and> \<not> truthy (js_get req ''farmerNic'') \<longrightarrow>
      snd (createBid env net req) = Inl (new_Error ''Farmer NIC is required'')
      \<and> net_calls (fst (createBid env net req)) = [])
   \<and> (\<not> truthy farmerNic \<longrightarrow>
      snd (getFarmerBids env net farmerNic) = Inl (new_Error ''Farmer NIC is required'')
      \<and> net_calls (fst (getFarmerBids env net farmerNic)) = [])
   \<and> (\<not> truthy buyerNic \<longrightarrow>
      snd (getBuyerWinningBids env net buyerNic) = Inl (new_Error ''Buyer NIC is required'')
      \<and> net_calls (fst (getBuyerWinningBids env net buyerNic)) = [])
   \<and> (\<not> truthy bidId \<longrightarrow>
      snd (getBidDetails env net bidId) = Inl (new_Error ''Bid ID is required'')
      \<and> net_calls (fst (getBidDetails env net bidId)) = [])
   \<and> (\<not> nullish offer
       \<and> (\<not> truthy (js_get offer ''bidId'') \<or> \<not> truthy (js_get offer ''buyerNic'')
            \<or> \<not> truthy (js_get offer ''bidAmount'')) \<longrightarrow>
      snd (placeBid env net offer)
        = Inl (new_Error ''Bid ID, Buyer NIC, and bid amount are required'')
      \<and> net_calls (fst (placeBid env net offer)) = [])
   \<and> (\<not> truthy bidId \<or> \<not> truthy buyerNic \<longrightarrow>
      snd (acceptBidOffer env net bidId buyerNic)
        = Inl (new_Error ''Bid ID and Buyer NIC are required'')
      \<and> net_calls (fst (acceptBidOffer env net bidId buyerNic)) = [])
   \<and> (\<not> truthy bidId \<longrightarrow>
      snd (cancelBid env net bidId) = Inl (new_Error ''Bid ID is required'')
      \<and> net_calls (fst (cancelBid env net bidId)) = [])
   \<and> (\<not> truthy bidId \<or> \<not> truthy st \<longrightarrow>
      snd (updateBidStatus env net bidId st)
        = Inl (new_Error ''Bid ID and status are required'')
      \<and> net_calls (fst (updateBidStatus env net bidId st)) = [])
   \<and> (\<not> truthy bidId \<or> \<not> truthy buyerNic \<or> \<not> truthy amount \<longrightarrow>
      snd (forceCompleteBid env net bidId buyerNic amount)
        = Inl (new_Error ''Bid ID, Buyer NIC, and amount are required'')
      \<and> net_calls (fst (forceCompleteBid env net bidId buyerNic amount)) = [])"
  using createBid_missing [of req env net] getFarmerBids_missing [of farmerNic env net]
    getBuyerWinningBids_missing [of buyerNic env net] getBidDetails_missing [of bidId env net]
    placeBid_missing [of offer env net] acceptBidOffer_missing [of bidId buyerNic env net]
    cancelBid_missing [of bidId env net] updateBidStatus_missing [of bidId st env net]
    forceCompleteBid_missing [of bidId buyerNic amount env net]
  by (intro conjI impI) blast+


theorem missing_identifier_fails_before_any_request_witness:
  "\<not> nullish (JObj [(''harvestDate'', JStr ''2025-03-10'')])
   \<and> \<not> truthy (js_get (JObj [(''harvestDate'', JStr ''2025-03-10'')]) ''farmerNic'')
   \<and> snd (createBid sample_env (backend_ok JNull) (JObj [(''harvestDate'', JStr ''2025-03-10'')]))
       = Inl (new_Error ''Farmer NIC is required'')
   \<and> net_calls (fst (createBid sample_env (backend_ok JNull)
         (JObj [(''harvestDate'', JStr ''2025-03-10'')]))) = []
   \<and> \<not> truthy JUndefined
   \<and> snd (getFarmerBids sample_env (backend_ok JNull) JUndefined)
       = Inl (new_Error ''Farmer NIC is required'')
   \<and> net_calls (fst (getFarmerBids sample_env (backend_ok JNull) JUndefined)) = []
   \<and> snd (getBuyerWinningBids sample_env (backend_ok JNull) JUndefined)
       = Inl (new_Error ''Buyer NIC is required'')
   \<and> net_calls (fst (getBuyerWinningBids sample_env (backend_ok JNull) JUndefined)) = []
   \<and> snd (getBidDetails sample_env (backend_ok JNull) JUndefined)
       = Inl (new_Error ''Bid ID is required'')
   \<and> net_calls (fst (getBidDetails sample_env (backend_ok JNull) JUndefined)) = []
   \<and> \<not> nullish (JObj [(''buyerNic'', JStr ''B1''), (''bidAmount'', JNum 100)])
   \<and> \<not> truthy (js_get (JObj [(''buyerNic'', JStr ''B1''), (''bidAmount'', JNum 100)]) ''bidId'')
   \<and> snd (placeBid sample_env (backend_ok JNull)
         (JObj [(''buyerNic'', JStr ''B1''), (''bidAmount'', JNum 100)]))
       = Inl (new_Error ''Bid ID, Buyer NIC, and bid amount are required'')
   \<and> net_calls (fst (placeBid sample_env (backend_ok JNull)
         (JObj [(''buyerNic'', JStr ''B1''), (''bidAmount'', JNum 100)]))) = []
   \<and> snd (acceptBidOffer sample_env (backend_ok JNull) JUndefined JUndefined)
       = Inl (new_Error ''Bid ID and Buyer NIC are required'')
   \<and> net_calls (fst (acceptBidOffer sample_env (backend_ok JNull) JUndefined JUndefined)) = []
   \<and> snd (cancelBid sample_env (backend_ok JNull) JUndefined)
       = Inl (new_Error ''Bid ID is required'')
   \<and> net_calls (fst (cancelBid sample_env (backend_ok JNull) JUndefined)) = []
   \<and> snd (updateBidStatus sample_env (backend_ok JNull) JUndefined JUndefined)
       = Inl (new_Error ''Bid ID and status are required'')
   \<and> net_calls (fst (updateBidStatus sample_env (backend_ok JNull) JUndefined JUndefined)) = []
   \<and> snd (forceCompleteBid sample_env (backend_ok JNull) JUndefined JUndefined JUndefined)
       = Inl (new_Error ''Bid ID, Buyer NIC, and amount are required'')
   \<and> net_calls (fst (forceCompleteBid sample_env (backend_ok JNull) JUndefined JUndefined
         JUndefined)) = []"
proof -
  have h1: "\<not> nullish (JObj [(''harvestDate'', JStr ''2025-03-10'')])
            \<and> \<not> truthy (js_get (JObj [(''harvestDate'', JStr ''2025-03-10'')]) ''farmerNic'')"
    by (simp add: nullish_def)
  have h2: "\<not> truthy JUndefined"
    by simp
  have h3: "\<not> nullish (JObj [(''buyerNic'', JStr ''B1''), (''bidAmount'', JNum 100)])
     \<and> \<not> truthy (js_get (JObj [(''buyerNic'', JStr ''B1''), (''bidAmount'', JNum 100)]) ''bidId'')"
    by (simp add: nullish_def)
  show ?thesis
    using h1 h2 h3
      missing_identifier_fails_before_any_request
        [of "JObj [(''harvestDate'', JStr ''2025-03-10'')]" sample_env "backend_ok JNull"
            JUndefined JUndefined JUndefined
            "JObj [(''buyerNic'', JStr ''B1''), (''bidAmount'', JNum 100)]" JUndefined JUndefined]
    by simp
qed


section \<open>The texts of the error mapping\<close>





text \<open>
  The errors the service itself throws into its catch blocks carry their own texts:
  \<open>handleError\<close> keeps each of them, and none is one of the fixed texts of the mapping.
\<close>

lemma validation_messages_are_kept:
  assumes "m \<in> set [''Farmer NIC is required'', ''Buyer NIC is required'',
                      ''Bid ID is required'',
                      ''Bid ID, Buyer NIC, and bid amount are required'',
                      ''Bid ID and Buyer NIC are required'',
                      ''Bid ID and status are required'',
                      ''Bid ID, Buyer NIC, and amount are required'']"
  shows "message (snd (handleError (new_Error m))) = m
       \<and> m \<notin> {''Cannot connect to server. Please check your connection.'',
                ''The requested resource was not found.'',
                ''This operation conflicts with an existing resource.'',
                ''An unexpected error occurred.''}"
proof -
  from assms have "m \<noteq> []"
    by auto
  then have "snd (handleError (new_Error m)) = new_Error m"
    by (rule handleError_plain)
  then have "message (snd (handleError (new_Error m))) = m"
    by (simp add: new_Error_def)
  moreover from assms
  have "m \<notin> {''Cannot connect to server. Please check your connection.'',
               ''The requested resource was not found.'',
               ''This operation conflicts with an existing resource.'',
               ''An unexpected error occurred.''}"
    by auto
  ultimately show ?thesis
    by simp
qed



section \<open>The response interceptor\<close>

lemma response_rejected_logs_only:
  "ev \<in> set (fst (response_rejected env e)) \<Longrightarrow> \<exists>s args. ev = Console s args"
  by (auto simp: response_rejected_def split: option.splits if_splits)


text \<open>
  C8. The interceptor returns a successful response as it is. A failure is rejected
  with the very error that came in; what the status and the code decide is the
  \<open>console.error\<close> line alone, and the interceptor makes no request of its own. The same
  holds through a call of the client. The error is one the client built: an error that
  has a response carries the request configuration the 404 line reads.
\<close>

theorem interceptor_passes_response_and_error_unchanged:
  "response_fulfilled resp = resp
   \<and> (built_by_client e \<longrightarrow> snd (response_rejected env e) = e)
   \<and> (\<forall>ev \<in> set (fst (response_rejected env e)). \<exists>s args. ev = Console s args)
   \<and> (net req = Inr resp \<longrightarrow> snd (axios_request env net req) = Inr resp)
   \<and> (net req = Inl e \<and> built_by_client e \<longrightarrow> snd (axios_request env net req) = Inl e)"
proof (intro conjI impI ballI)
  show "response_fulfilled resp = resp"
    by (simp add: response_fulfilled_def)
  show "snd (response_rejected env e) = e" if "built_by_client e"
    using that by (rule response_rejected_same)
  show "\<exists>s args. ev = Console s args" if "ev \<in> set (fst (response_rejected env e))" for ev
    using that by (rule response_rejected_logs_only)
  show "snd (axios_request env net req) = Inr resp" if "net req = Inr resp"
    using that by (simp add: axios_request_def response_fulfilled_def)
  show "snd (axios_request env net req) = Inl e" if "net req = Inl e \<and> built_by_client e"
    using that response_rejected_same [of e env]
    by (cases "response_rejected env e") (simp add: axios_request_def)
qed


theorem interceptor_passes_response_and_error_unchanged_witness:
  "built_by_client (http_error 404 (JStr ''Not Found'')
       \<lparr>verb = GET, url = ''/bids/99'', body = JUndefined, params = NoParams,
          signal = JUndefined\<rparr>)
   \<and> backend_status 404 (JStr ''Not Found'')
       \<lparr>verb = GET, url = ''/bids/99'', body = JUndefined, params = NoParams,
          signal = JUndefined\<rparr>
     = Inl (http_error 404 (JStr ''Not Found'')
       \<lparr>verb = GET, url = ''/bids/99'', body = JUndefined, params = NoParams,
          signal = JUndefined\<rparr>)
   \<and> response_rejected sample_env (http_error 404 (JStr ''Not Found'')
       \<lparr>verb = GET, url = ''/bids/99'', body = JUndefined, params = NoParams,
          signal = JUndefined\<rparr>)
     = ([Console ''API Not Found:'' [LStr ''/bids/99'']],
        http_error 404 (JStr ''Not Found'')
          \<lparr>verb = GET, url = ''/bids/99'', body = JUndefined, params = NoParams,
             signal = JUndefined\<rparr>)
   \<and> snd (axios_request sample_env (backend_status 404 (JStr ''Not Found''))
       \<lparr>verb = GET, url = ''/bids/99'', body = JUndefined, params = NoParams,
          signal = JUndefined\<rparr>)
     = Inl (http_error 404 (JStr ''Not Found'')
       \<lparr>verb = GET, url = ''/bids/99'', body = JUndefined, params = NoParams,
          signal = JUndefined\<rparr>)
   \<and> backend_ok (JArr []) \<lparr>verb = GET, url = ''/bids/99'', body = JUndefined,
          params = NoParams, signal = JUndefined\<rparr> = Inr \<lparr>status = 200, data = JArr []\<rparr>
   \<and> snd (axios_request sample_env (backend_ok (JArr []))
       \<lparr>verb = GET, url = ''/bids/99'', body = JUndefined, params = NoParams,
          signal = JUndefined\<rparr>)
     = Inr \<lparr>status = 200, data = JArr []\<rparr>"
proof -
  let ?r = "\<lparr>verb = GET, url = ''/bids/99'', body = JUndefined, params = NoParams,
              signal = JUndefined\<rparr>"
  let ?e = "http_error 404 (JStr ''Not Found'') ?r"
  have client: "built_by_client ?e"
    by (simp add: built_by_client_def http_error_def)
  have fails: "backend_status 404 (JStr ''Not Found'') ?r = Inl ?e"
    by (simp add: backend_status_def)
  have ok: "backend_ok (JArr []) ?r = Inr \<lparr>status = 200, data = JArr []\<rparr>"
    by (simp add: backend_ok_def)
  have log: "fst (response_rejected sample_env ?e) = [Console ''API Not Found:'' [LStr ''/bids/99'']]"
    by (simp add: response_rejected_def http_error_def)
  from interceptor_passes_response_and_error_unchanged
         [where e = ?e and env = sample_env and net = "backend_status 404 (JStr ''Not Found'')"
            and req = ?r]
       client fails
  have same: "snd (response_rejected sample_env ?e) = ?e"
   and call: "snd (axios_request sample_env (backend_status 404 (JStr ''Not Found'')) ?r) = Inl ?e"
    by blast+
  from interceptor_passes_response_and_error_unchanged
         [where net = "backend_ok (JArr [])" and req = ?r and env = sample_env
            and resp = "\<lparr>status = 200, data = JArr []\<rparr>"] ok
  have pass: "snd (axios_request sample_env (backend_ok (JArr [])) ?r)
                = Inr \<lparr>status = 200, data = JArr []\<rparr>"
    by blast
  have "response_rejected sample_env ?e = ([Console ''API Not Found:'' [LStr ''/bids/99'']], ?e)"
    using log same by (cases "response_rejected sample_env ?e") simp
  with client fails call ok pass show ?thesis
    by (intro conjI)
qed


section \<open>Pagination of the allocation list\<close>

text \<open>
  C10 (as amended). Previous is disabled exactly when \<open>currentPage\<close> is 0, and a
  disabled button invokes nothing; otherwise a click passes \<open>currentPage - 1\<close> to the
  page-change callback, which is not negative when \<open>currentPage\<close> is not negative. Next
  is never disabled and passes \<open>currentPage + 1\<close>, whatever the list of allocations.
\<close>

theorem pagination_controls:
  "disabled (previousButton (AllocationList allocations currentPage)) = (currentPage = 0)
   \<and> (currentPage = 0 \<longrightarrow>
        click (previousButton (AllocationList allocations currentPage)) = [])
   \<and> (currentPage \<noteq> 0 \<longrightarrow>
        click (previousButton (AllocationList allocations currentPage)) = [currentPage - 1])
   \<and> (0 \<le> currentPage \<longrightarrow>
        (\<forall>page \<in> set (click (previousButton (AllocationList allocations currentPage))).
           0 \<le> page))
   \<and> \<not> disabled (nextButton (AllocationList allocations currentPage))
   \<and> click (nextButton (AllocationList allocations currentPage)) = [currentPage + 1]"
  by (auto simp: AllocationList_def click_def)


theorem pagination_controls_witness:
  "(0::int) \<le> 0 \<and> (0::int) \<le> 3 \<and> (3::int) \<noteq> 0
   \<and> disabled (previousButton (AllocationList [] 0))
   \<and> click (previousButton (AllocationList [] 0)) = []
   \<and> click (previousButton (AllocationList [] 3)) = [2]
   \<and> click (nextButton (AllocationList [] 3)) = [4]"
proof -
  have h: "(0::int) \<le> 0 \<and> (0::int) \<le> 3 \<and> (3::int) \<noteq> 0"
    by simp
  show ?thesis
    using h pagination_controls [of "[]" 0] pagination_controls [of "[]" 3]
    by simp
qed


text \<open>
  C10 as stated, for every \<open>currentPage\<close>, fails at \<open>currentPage = -1\<close>: Previous is
  enabled and its click passes \<open>-2\<close> to the callback.
\<close>

theorem previous_from_negative_page:
  "\<not> disabled (previousButton (AllocationList [] (- 1)))
   \<and> click (previousButton (AllocationList [] (- 1))) = [- 2]
   \<and> (- 2 :: int) < 0"
  by (simp add: AllocationList_def click_def)


section \<open>The request of createBid\<close>

lemma Day_MakeDate:
  assumes "0 \<le> time" "time < msPerDay"
  shows "Day (MakeDate day time) = day" and "TimeWithinDay (MakeDate day time) = time"
  using assms by (simp_all add: Day_def TimeWithinDay_def MakeDate_def msPerDay_def)

lemma noon_of_day:
  "Day (MakeDate day (MakeTime 12 0 0 0)) = day"
  "TimeWithinDay (MakeDate day (MakeTime 12 0 0 0)) = 12 * 3600000"
  by (simp_all add: Day_MakeDate MakeTime_def msPerDay_def)

lemma createBid_sent:
  assumes farmer: "map_of kvs ''farmerNic'' = Some farmerNic" "truthy farmerNic"
  shows "net_calls (fst (createBid env net (JObj kvs))) =
     (case setHours env (new_Date env (js_get (JObj kvs) ''harvestDate'')) 12 0 0 0 of
        None \<Rightarrow> []
      | Some u \<Rightarrow>
          [\<lparr>verb = POST, url = ''/bids'',
            body = JObj (AList.update ''status'' (JStr ''ACTIVE'')
                     (AList.update ''harvestDate'' (JStr (toISO env u)) kvs)),
            params = NoParams, signal = JUndefined\<rparr>])"
  using farmer
  by (simp add: createBid_unfold get_prop_def nullish_def toISOString_def try_catch_call
        baseURL_def split: option.splits sum.splits)

text \<open>
  C7. For a \<open>createBid\<close> request object with a farmer identifier, every request sent is
  a POST to \<open>/bids\<close> whose body has \<open>harvestDate\<close> set to the ISO string of noon, local
  time, of the local calendar day of the caller's harvest date, has \<open>status\<close> set to
  \<open>ACTIVE\<close> whatever the caller supplied, and agrees with the caller's request on every
  other field, with no field added. The request is sent, once, when the harvest date
  is a valid date.
\<close>

theorem createBid_request_shape:
  assumes "map_of kvs ''farmerNic'' = Some farmerNic" and "truthy farmerNic"
  shows "(\<forall>r \<in> set (net_calls (fst (createBid env net (JObj kvs)))).
            verb r = POST \<and> url r = ''/bids''
          \<and> (\<exists>t local fields.
                new_Date env (js_get (JObj kvs) ''harvestDate'') = Some t
              \<and> Day local = Day (LocalTime env t)
              \<and> TimeWithinDay local = 12 * 3600000
              \<and> body r = JObj fields
              \<and> map_of fields ''harvestDate'' = Some (JStr (toISO env (UTC env local)))
              \<and> map_of fields ''status'' = Some (JStr ''ACTIVE'')
              \<and> (\<forall>k. k \<noteq> ''harvestDate'' \<and> k \<noteq> ''status'' \<longrightarrow> map_of fields k = map_of kvs k)
              \<and> fst ` set fields = fst ` set kvs \<union> {''harvestDate'', ''status''}))
       \<and> (\<forall>t. new_Date env (js_get (JObj kvs) ''harvestDate'') = Some t
              \<and> \<bar>UTC env (MakeDate (Day (LocalTime env t)) (MakeTime 12 0 0 0))\<bar>
                   \<le> 8640000000000000
            \<longrightarrow> length (net_calls (fst (createBid env net (JObj kvs)))) = 1)"
proof (intro conjI ballI allI impI)
  fix r
  assume r: "r \<in> set (net_calls (fst (createBid env net (JObj kvs))))"
  let ?d = "new_Date env (js_get (JObj kvs) ''harvestDate'')"
  from r obtain u where u: "setHours env ?d 12 0 0 0 = Some u"
    and req: "r = \<lparr>verb = POST, url = ''/bids'',
            body = JObj (AList.update ''status'' (JStr ''ACTIVE'')
                     (AList.update ''harvestDate'' (JStr (toISO env u)) kvs)),
            params = NoParams, signal = JUndefined\<rparr>"
    using createBid_sent [OF assms, of env net]
    by (cases "setHours env ?d 12 0 0 0") (auto simp del: js_get.simps)
  from u obtain t where t: "?d = Some t"
    and clip: "TimeClip (UTC env (MakeDate (Day (LocalTime env t)) (MakeTime 12 0 0 0))) = Some u"
    by (cases ?d) (auto simp: setHours_def simp del: js_get.simps)
  let ?local = "MakeDate (Day (LocalTime env t)) (MakeTime 12 0 0 0)"
  let ?fields = "AList.update ''status'' (JStr ''ACTIVE'')
                     (AList.update ''harvestDate'' (JStr (toISO env u)) kvs)"
  from clip have uu: "u = UTC env ?local"
    by (simp add: TimeClip_def split: if_splits)
  show "verb r = POST" and "url r = ''/bids''"
    by (simp_all add: req)
  show "\<exists>t local fields.
                new_Date env (js_get (JObj kvs) ''harvestDate'') = Some t
              \<and> Day local = Day (LocalTime env t)
              \<and> TimeWithinDay local = 12 * 3600000
              \<and> body r = JObj fields
              \<and> map_of fields ''harvestDate'' = Some (JStr (toISO env (UTC env local)))
              \<and> map_of fields ''status'' = Some (JStr ''ACTIVE'')
              \<and> (\<forall>k. k \<noteq> ''harvestDate'' \<and> k \<noteq> ''status'' \<longrightarrow> map_of fields k = map_of kvs k)
              \<and> fst ` set fields = fst ` set kvs \<union> {''harvestDate'', ''status''}"
  proof (intro exI conjI)
    show "?d = Some t" by (rule t)
    show "Day ?local = Day (LocalTime env t)" by (rule noon_of_day)
    show "TimeWithinDay ?local = 12 * 3600000" by (rule noon_of_day)
    show "body r = JObj ?fields" by (simp add: req)
    show "map_of ?fields ''harvestDate'' = Some (JStr (toISO env (UTC env ?local)))"
      by (simp add: update_conv' uu)
    show "map_of ?fields ''status'' = Some (JStr ''ACTIVE'')"
      by (simp add: update_conv')
    show "\<forall>k. k \<noteq> ''harvestDate'' \<and> k \<noteq> ''status'' \<longrightarrow> map_of ?fields k = map_of kvs k"
      by (simp add: update_conv')
    show "fst ` set ?fields = fst ` set kvs \<union> {''harvestDate'', ''status''}"
      by (auto simp: dom_update)
  qed
next
  fix t
  assume "new_Date env (js_get (JObj kvs) ''harvestDate'') = Some t
              \<and> \<bar>UTC env (MakeDate (Day (LocalTime env t)) (MakeTime 12 0 0 0))\<bar>
                   \<le> 8640000000000000"
  then show "length (net_calls (fst (createBid env net (JObj kvs)))) = 1"
    by (simp add: createBid_sent [OF assms] setHours_def TimeClip_def del: js_get.simps)
qed



theorem createBid_request_shape_witness:
  "map_of [(''farmerNic'', JStr ''N1''), (''harvestDate'', JStr ''2025-03-10''),
           (''status'', JStr ''SOLD''), (''minimumPrice'', JNum 120)] ''farmerNic''
     = Some (JStr ''N1'')
   \<and> truthy (JStr ''N1'')
   \<and> new_Date sample_env
         (js_get (JObj [(''farmerNic'', JStr ''N1''), (''harvestDate'', JStr ''2025-03-10''),
                        (''status'', JStr ''SOLD''), (''minimumPrice'', JNum 120)])
            ''harvestDate'') = Some 1741564800000
   \<and> \<bar>UTC sample_env (MakeDate (Day (LocalTime sample_env 1741564800000)) (MakeTime 12 0 0 0))\<bar>
        \<le> 8640000000000000
   \<and> length (net_calls (fst (createBid sample_env (backend_ok (JObj [(''id'', JNum 1)]))
         (JObj [(''farmerNic'', JStr ''N1''), (''harvestDate'', JStr ''2025-03-10''),
                (''status'', JStr ''SOLD''), (''minimumPrice'', JNum 120)])))) = 1
   \<and> net_calls (fst (createBid sample_env (backend_ok (JObj [(''id'', JNum 1)]))
         (JObj [(''farmerNic'', JStr ''N1''), (''harvestDate'', JStr ''2025-03-10''),
                (''status'', JStr ''SOLD''), (''minimumPrice'', JNum 120)])))
     = [\<lparr>verb = POST, url = ''/bids'',
         body = JObj [(''farmerNic'', JStr ''N1''),
                      (''harvestDate'', JStr ''2025-03-10T06:30:00.000Z''),
                      (''status'', JStr ''ACTIVE''), (''minimumPrice'', JNum 120)],
         params = NoParams, signal = JUndefined\<rparr>]"
proof -
  let ?kvs = "[(''farmerNic'', JStr ''N1''), (''harvestDate'', JStr ''2025-03-10''),
               (''status'', JStr ''SOLD''), (''minimumPrice'', JNum 120)]"
  have farmer: "map_of ?kvs ''farmerNic'' = Some (JStr ''N1'')" "truthy (JStr ''N1'')"
    by simp_all
  have date: "new_Date sample_env (js_get (JObj ?kvs) ''harvestDate'') = Some 1741564800000"
    by code_simp
  have range: "\<bar>UTC sample_env (MakeDate (Day (LocalTime sample_env 1741564800000))
                  (MakeTime 12 0 0 0))\<bar> \<le> 8640000000000000"
    by code_simp
  have sent: "net_calls (fst (createBid sample_env (backend_ok (JObj [(''id'', JNum 1)]))
                 (JObj ?kvs)))
     = [\<lparr>verb = POST, url = ''/bids'',
         body = JObj [(''farmerNic'', JStr ''N1''),
                      (''harvestDate'', JStr ''2025-03-10T06:30:00.000Z''),
                      (''status'', JStr ''ACTIVE''), (''minimumPrice'', JNum 120)],
         params = NoParams, signal = JUndefined\<rparr>]"
    by code_simp
  from createBid_request_shape [OF farmer, of sample_env "backend_ok (JObj [(''id'', JNum 1)])"]
       date range
  have "length (net_calls (fst (createBid sample_env (backend_ok (JObj [(''id'', JNum 1)]))
                 (JObj ?kvs)))) = 1"
    by blast
  with farmer date range sent show ?thesis
    by (intro conjI)
qed


section \<open>The records of getAllBids\<close>

lemma map_result_get_prop:
  "map_result (\<lambda>x. get_prop env x k) xs = Inr ys \<Longrightarrow> ys = map (\<lambda>x. js_get x k) xs"
  by (induction xs arbitrary: ys) (auto simp: get_prop_def split: sum.splits if_splits)

lemma map_result_all2:
  "map_result f xs = Inr ys \<Longrightarrow> list_all2 (\<lambda>x y. f x = Inr y) xs ys"
  by (induction xs arbitrary: ys) (auto split: sum.splits)

lemma array_join_strings:
  "array_join sep (map JStr nics) = join_strings sep nics"
  by (simp add: array_join_def nullish_def comp_def)

text \<open>What \<open>bid_view\<close> returns, when it returns.\<close>

lemma bid_view_result:
  assumes "bid_view env bid = Inr view"
  obtains buyerNic where
    "view = JObj
       (AList.update ''createdAt''
          (if truthy (js_get bid ''postedDate'')
           then JStr (toLocaleDateString env (new_Date env (js_get bid ''postedDate'')))
           else JStr ''Invalid Date'')
       (AList.update ''winningBidPrice'' (js_or (js_get bid ''winningBidAmount'') JNull)
       (AList.update ''buyerNic'' buyerNic
       (AList.update ''bidOffers'' (js_or (js_get bid ''bidOffers'') (JArr []))
       (own_entries bid)))))"
    and "(if truthy (js_get bid ''winningBuyerNic'') then Inr (js_get bid ''winningBuyerNic'')
          else if truthy (js_get bid ''bidOffers'')
                  \<and> js_gt0 env (js_get (js_get bid ''bidOffers'') ''length'')
            then bind_result
                   (call_map env ''bid.bidOffers.map'' (js_get bid ''bidOffers'')
                      (\<lambda>offer. get_prop env offer ''buyerNic''))
                   (\<lambda>nics. Inr (JStr (array_join '', '' nics)))
          else Inr (JStr ''-'')) = Inr buyerNic"
  using assms
  by (auto simp: bid_view_def bind_result_def get_prop_def simp del: js_get.simps
        split: sum.splits if_splits)

lemma bid_view_offers:
  assumes "bid_view env bid = Inr view"
  shows "js_get view ''bidOffers'' = js_or (js_get bid ''bidOffers'') (JArr [])"
  using assms by (rule bid_view_result) (simp add: update_conv')

lemma bid_view_buyer:
  assumes "bid_view env bid = Inr view"
  shows "(truthy (js_get bid ''winningBuyerNic'')
            \<longrightarrow> js_get view ''buyerNic'' = js_get bid ''winningBuyerNic'')
       \<and> (\<not> truthy (js_get bid ''winningBuyerNic'')
            \<longrightarrow> (\<forall>offers. js_get bid ''bidOffers'' = JArr offers \<and> offers \<noteq> []
                   \<longrightarrow> js_get view ''buyerNic''
                        = JStr (array_join '', '' (map (\<lambda>offer. js_get offer ''buyerNic'') offers))))
       \<and> (\<not> truthy (js_get bid ''winningBuyerNic'')
            \<and> (nullish (js_get bid ''bidOffers'') \<or> js_get bid ''bidOffers'' = JArr [])
            \<longrightarrow> js_get view ''buyerNic'' = JStr ''-'')"
  using assms
proof (rule bid_view_result)
  fix buyerNic
  assume view: "view = JObj
       (AList.update ''createdAt''
          (if truthy (js_get bid ''postedDate'')
           then JStr (toLocaleDateString env (new_Date env (js_get bid ''postedDate'')))
           else JStr ''Invalid Date'')
       (AList.update ''winningBidPrice'' (js_or (js_get bid ''winningBidAmount'') JNull)
       (AList.update ''buyerNic'' buyerNic
       (AList.update ''bidOffers'' (js_or (js_get bid ''bidOffers'') (JArr []))
       (own_entries bid)))))"
    and buyer: "(if truthy (js_get bid ''winningBuyerNic'') then Inr (js_get bid ''winningBuyerNic'')
          else if truthy (js_get bid ''bidOffers'')
                  \<and> js_gt0 env (js_get (js_get bid ''bidOffers'') ''length'')
            then bind_result
                   (call_map env ''bid.bidOffers.map'' (js_get bid ''bidOffers'')
                      (\<lambda>offer. get_prop env offer ''buyerNic''))
                   (\<lambda>nics. Inr (JStr (array_join '', '' nics)))
          else Inr (JStr ''-'')) = Inr buyerNic"
  have get: "js_get view ''buyerNic'' = buyerNic"
    by (simp add: view update_conv')
  show ?thesis
  proof (intro conjI impI allI)
    assume "truthy (js_get bid ''winningBuyerNic'')"
    with buyer get show "js_get view ''buyerNic'' = js_get bid ''winningBuyerNic''"
      by simp
  next
    fix offers
    assume w: "\<not> truthy (js_get bid ''winningBuyerNic'')"
       and o: "js_get bid ''bidOffers'' = JArr offers \<and> offers \<noteq> []"
    with buyer have "bind_result (map_result (\<lambda>offer. get_prop env offer ''buyerNic'') offers)
                       (\<lambda>nics. Inr (JStr (array_join '', '' nics))) = Inr buyerNic"
      by (simp add: js_gt0_def call_map_def nullish_def)
    then obtain nics where "map_result (\<lambda>offer. get_prop env offer ''buyerNic'') offers = Inr nics"
      and "buyerNic = JStr (array_join '', '' nics)"
      by (auto simp: bind_result_def split: sum.splits)
    with get map_result_get_prop
    show "js_get view ''buyerNic''
            = JStr (array_join '', '' (map (\<lambda>offer. js_get offer ''buyerNic'') offers))"
      by blast
  next
    assume "\<not> truthy (js_get bid ''winningBuyerNic'')
            \<and> (nullish (js_get bid ''bidOffers'') \<or> js_get bid ''bidOffers'' = JArr [])"
    with buyer get show "js_get view ''buyerNic'' = JStr ''-''"
      by (auto simp: nullish_def js_gt0_def)
  qed
qed


lemma getAllBids_success:
  assumes "snd (getAllBids env net arg) = Inr result"
  obtains r resp bids views where
    "net_calls (fst (getAllBids env net arg)) = [r]" "net r = Inr resp"
    "data resp = JArr bids" "result = JArr views"
    "list_all2 (\<lambda>bid view. bid_view env bid = Inr view) bids views"
proof -
  let ?a = "if arg = JUndefined then JObj [] else arg"
  from assms have notnull: "arg \<noteq> JNull"
    by (auto simp: getAllBids_unfold)
  from assms notnull obtain ps where
    ps: "all_bids_params env (JObj (filter (\<lambda>kv. fst kv \<noteq> ''signal'') (own_entries ?a))) = Inr ps"
    by (cases "all_bids_params env (JObj (filter (\<lambda>kv. fst kv \<noteq> ''signal'') (own_entries ?a)))")
       (auto simp: getAllBids_unfold)
  let ?r = "\<lparr>verb = GET, url = baseURL @ ''/admin/all'', body = JUndefined,
              params = SearchParams ps, signal = js_get ?a ''signal''\<rparr>"
  from assms notnull ps obtain resp where resp: "net ?r = Inr resp"
    by (cases "net ?r") (auto simp: getAllBids_unfold)
  from assms notnull ps resp obtain views where
    views: "call_map env ''response.data.map'' (data resp) (bid_view env) = Inr views"
    and res: "result = JArr views"
    by (cases "call_map env ''response.data.map'' (data resp) (bid_view env)")
       (auto simp: getAllBids_unfold)
  from views obtain bids where bids: "data resp = JArr bids"
    and m: "map_result (bid_view env) bids = Inr views"
    by (cases "data resp") (auto simp: call_map_def split: if_splits)
  have calls: "net_calls (fst (getAllBids env net arg)) = [?r]"
    using notnull ps resp views by (simp add: getAllBids_unfold)
  from calls resp bids res map_result_all2 [OF m] show thesis
    by (rule that)
qed

text \<open>
  C3. When \<open>getAllBids\<close> returns, it returns one record per record of the response, in
  order. In each, \<open>bidOffers\<close> is the list the backend sent, or the empty list when the
  backend sent none. \<open>buyerNic\<close> is the winning buyer identifier when there is one (a
  truthy \<open>winningBuyerNic\<close>); otherwise, when there are offers, the buyer identifiers of
  the offers in the order received, joined by a comma and a space; otherwise \<open>-\<close>.
\<close>

theorem returned_bids_are_display_ready:
  assumes "snd (getAllBids env net arg) = Inr result"
  shows "\<exists>r resp bids views.
           net_calls (fst (getAllBids env net arg)) = [r] \<and> net r = Inr resp
         \<and> data resp = JArr bids \<and> result = JArr views
         \<and> list_all2 (\<lambda>bid view.
               (nullish (js_get bid ''bidOffers'') \<longrightarrow> js_get view ''bidOffers'' = JArr [])
             \<and> (\<forall>offers. js_get bid ''bidOffers'' = JArr offers
                   \<longrightarrow> js_get view ''bidOffers'' = JArr offers)
             \<and> (truthy (js_get bid ''winningBuyerNic'')
                   \<longrightarrow> js_get view ''buyerNic'' = js_get bid ''winningBuyerNic'')
             \<and> (\<not> truthy (js_get bid ''winningBuyerNic'')
                   \<longrightarrow> (\<forall>offers. js_get bid ''bidOffers'' = JArr offers \<and> offers \<noteq> []
                          \<longrightarrow> js_get view ''buyerNic''
                               = JStr (array_join '', ''
                                   (map (\<lambda>offer. js_get offer ''buyerNic'') offers))))
             \<and> (\<not> truthy (js_get bid ''winningBuyerNic'')
                   \<longrightarrow> (\<forall>offers nics. js_get bid ''bidOffers'' = JArr offers \<and> offers \<noteq> []
                            \<and> map (\<lambda>offer. js_get offer ''buyerNic'') offers = map JStr nics
                          \<longrightarrow> js_get view ''buyerNic'' = JStr (join_strings '', '' nics)))
             \<and> (\<not> truthy (js_get bid ''winningBuyerNic'')
                   \<and> (nullish (js_get bid ''bidOffers'') \<or> js_get bid ''bidOffers'' = JArr [])
                   \<longrightarrow> js_get view ''buyerNic'' = JStr ''-''))
             bids views"
  using assms
proof (rule getAllBids_success)
  fix r resp bids views
  assume calls: "net_calls (fst (getAllBids env net arg)) = [r]" and resp: "net r = Inr resp"
    and bids: "data resp = JArr bids" and res: "result = JArr views"
    and each: "list_all2 (\<lambda>bid view. bid_view env bid = Inr view) bids views"
  have "list_all2 (\<lambda>bid view.
               (nullish (js_get bid ''bidOffers'') \<longrightarrow> js_get view ''bidOffers'' = JArr [])
             \<and> (\<forall>offers. js_get bid ''bidOffers'' = JArr offers
                   \<longrightarrow> js_get view ''bidOffers'' = JArr offers)
             \<and> (truthy (js_get bid ''winningBuyerNic'')
                   \<longrightarrow> js_get view ''buyerNic'' = js_get bid ''winningBuyerNic'')
             \<and> (\<not> truthy (js_get bid ''winningBuyerNic'')
                   \<longrightarrow> (\<forall>offers. js_get bid ''bidOffers'' = JArr offers \<and> offers \<noteq> []
                          \<longrightarrow> js_get view ''buyerNic''
                               = JStr (array_join '', ''
                                   (map (\<lambda>offer. js_get offer ''buyerNic'') offers))))
             \<and> (\<not> truthy (js_get bid ''winningBuyerNic'')
                   \<longrightarrow> (\<forall>offers nics. js_get bid ''bidOffers'' = JArr offers \<and> offers \<noteq> []
                            \<and> map (\<lambda>offer. js_get offer ''buyerNic'') offers = map JStr nics
                          \<longrightarrow> js_get view ''buyerNic'' = JStr (join_strings '', '' nics)))
             \<and> (\<not> truthy (js_get bid ''winningBuyerNic'')
                   \<and> (nullish (js_get bid ''bidOffers'') \<or> js_get bid ''bidOffers'' = JArr [])
                   \<longrightarrow> js_get view ''buyerNic'' = JStr ''-''))
             bids views"
    using each
  proof (rule list_all2_mono)
    fix bid view
    assume v: "bid_view env bid = Inr view"
    note o = bid_view_offers [OF v] and b = bid_view_buyer [OF v]
    have o1: "nullish (js_get bid ''bidOffers'') \<longrightarrow> js_get view ''bidOffers'' = JArr []"
      using o by (auto simp: nullish_def js_or_def)
    have o2: "\<forall>offers. js_get bid ''bidOffers'' = JArr offers
                \<longrightarrow> js_get view ''bidOffers'' = JArr offers"
      using o by (auto simp: js_or_def)
    have b5: "\<not> truthy (js_get bid ''winningBuyerNic'')
                   \<longrightarrow> (\<forall>offers nics. js_get bid ''bidOffers'' = JArr offers \<and> offers \<noteq> []
                            \<and> map (\<lambda>offer. js_get offer ''buyerNic'') offers = map JStr nics
                          \<longrightarrow> js_get view ''buyerNic'' = JStr (join_strings '', '' nics))"
      using b array_join_strings [of "'', ''"] by metis
    from o1 o2 b b5
    show "(nullish (js_get bid ''bidOffers'') \<longrightarrow> js_get view ''bidOffers'' = JArr [])
             \<and> (\<forall>offers. js_get bid ''bidOffers'' = JArr offers
                   \<longrightarrow> js_get view ''bidOffers'' = JArr offers)
             \<and> (truthy (js_get bid ''winningBuyerNic'')
                   \<longrightarrow> js_get view ''buyerNic'' = js_get bid ''winningBuyerNic'')
             \<and> (\<not> truthy (js_get bid ''winningBuyerNic'')
                   \<longrightarrow> (\<forall>offers. js_get bid ''bidOffers'' = JArr offers \<and> offers \<noteq> []
                          \<longrightarrow> js_get view ''buyerNic''
                               = JStr (array_join '', ''
                                   (map (\<lambda>offer. js_get offer ''buyerNic'') offers))))
             \<and> (\<not> truthy (js_get bid ''winningBuyerNic'')
                   \<longrightarrow> (\<forall>offers nics. js_get bid ''bidOffers'' = JArr offers \<and> offers \<noteq> []
                            \<and> map (\<lambda>offer. js_get offer ''buyerNic'') offers = map JStr nics
                          \<longrightarrow> js_get view ''buyerNic'' = JStr (join_strings '', '' nics)))
             \<and> (\<not> truthy (js_get bid ''winningBuyerNic'')
                   \<and> (nullish (js_get bid ''bidOffers'') \<or> js_get bid ''bidOffers'' = JArr [])
                   \<longrightarrow> js_get view ''buyerNic'' = JStr ''-'')"
      by (intro conjI) blast+
  qed
  with calls resp bids res show ?thesis
    by blast
qed



theorem returned_bids_are_display_ready_witness:
  "snd (getAllBids sample_env
         (backend_ok (JArr
           [JObj [(''id'', JNum 1)],
            JObj [(''id'', JNum 2),
                (''bidOffers'', JArr [JObj [(''buyerNic'', JStr ''B1'')],
                                      JObj [(''buyerNic'', JStr ''B2'')]])],
            JObj [(''id'', JNum 3), (''winningBuyerNic'', JStr ''W9''),
                (''bidOffers'', JArr [JObj [(''buyerNic'', JStr ''B1'')]])]]))
         JUndefined)
     = Inr (JArr
           [JObj [(''id'', JNum 1), (''bidOffers'', JArr []), (''buyerNic'', JStr ''-''),
                (''winningBidPrice'', JNull), (''createdAt'', JStr ''Invalid Date'')],
            JObj [(''id'', JNum 2),
                (''bidOffers'', JArr [JObj [(''buyerNic'', JStr ''B1'')],
                                      JObj [(''buyerNic'', JStr ''B2'')]]),
                (''buyerNic'', JStr ''B1, B2''),
                (''winningBidPrice'', JNull), (''createdAt'', JStr ''Invalid Date'')],
            JObj [(''id'', JNum 3), (''winningBuyerNic'', JStr ''W9''),
                (''bidOffers'', JArr [JObj [(''buyerNic'', JStr ''B1'')]]),
                (''buyerNic'', JStr ''W9''),
                (''winningBidPrice'', JNull), (''createdAt'', JStr ''Invalid Date'')]])
   \<and> js_get (JObj [(''id'', JNum 1), (''bidOffers'', JArr []), (''buyerNic'', JStr ''-''),
                (''winningBidPrice'', JNull), (''createdAt'', JStr ''Invalid Date'')])
         ''bidOffers'' = JArr []
   \<and> js_get (JObj [(''id'', JNum 1), (''bidOffers'', JArr []), (''buyerNic'', JStr ''-''),
                (''winningBidPrice'', JNull), (''createdAt'', JStr ''Invalid Date'')])
         ''buyerNic'' = JStr ''-''
   \<and> js_get (JObj [(''id'', JNum 2),
                (''bidOffers'', JArr [JObj [(''buyerNic'', JStr ''B1'')],
                                      JObj [(''buyerNic'', JStr ''B2'')]]),
                (''buyerNic'', JStr ''B1, B2''),
                (''winningBidPrice'', JNull), (''createdAt'', JStr ''Invalid Date'')])
         ''buyerNic'' = JStr ''B1, B2''
   \<and> js_get (JObj [(''id'', JNum 3), (''winningBuyerNic'', JStr ''W9''),
                (''bidOffers'', JArr [JObj [(''buyerNic'', JStr ''B1'')]]),
                (''buyerNic'', JStr ''W9''),
                (''winningBidPrice'', JNull), (''createdAt'', JStr ''Invalid Date'')])
         ''buyerNic'' = JStr ''W9''"
proof -
  let ?b1 = "JObj [(''id'', JNum 1)]"
  let ?b2 = "JObj [(''id'', JNum 2),
                (''bidOffers'', JArr [JObj [(''buyerNic'', JStr ''B1'')],
                                      JObj [(''buyerNic'', JStr ''B2'')]])]"
  let ?b3 = "JObj [(''id'', JNum 3), (''winningBuyerNic'', JStr ''W9''),
                (''bidOffers'', JArr [JObj [(''buyerNic'', JStr ''B1'')]])]"
  let ?v1 = "JObj [(''id'', JNum 1), (''bidOffers'', JArr []), (''buyerNic'', JStr ''-''),
                (''winningBidPrice'', JNull), (''createdAt'', JStr ''Invalid Date'')]"
  let ?v2 = "JObj [(''id'', JNum 2),
                (''bidOffers'', JArr [JObj [(''buyerNic'', JStr ''B1'')],
                                      JObj [(''buyerNic'', JStr ''B2'')]]),
                (''buyerNic'', JStr ''B1, B2''),
                (''winningBidPrice'', JNull), (''createdAt'', JStr ''Invalid Date'')]"
  let ?v3 = "JObj [(''id'', JNum 3), (''winningBuyerNic'', JStr ''W9''),
                (''bidOffers'', JArr [JObj [(''buyerNic'', JStr ''B1'')]]),
                (''buyerNic'', JStr ''W9''),
                (''winningBidPrice'', JNull), (''createdAt'', JStr ''Invalid Date'')]"
  let ?net = "backend_ok (JArr [?b1, ?b2, ?b3])"
  have h: "snd (getAllBids sample_env ?net JUndefined) = Inr (JArr [?v1, ?v2, ?v3])"
    by code_simp
  from returned_bids_are_display_ready [OF h]
  obtain r resp bids views where
    resp: "?net r = Inr resp" and bids: "data resp = JArr bids"
    and views: "JArr [?v1, ?v2, ?v3] = JArr views"
    and each: "list_all2 (\<lambda>bid view.
               (nullish (js_get bid ''bidOffers'') \<longrightarrow> js_get view ''bidOffers'' = JArr [])
             \<and> (\<forall>offers. js_get bid ''bidOffers'' = JArr offers
                   \<longrightarrow> js_get view ''bidOffers'' = JArr offers)
             \<and> (truthy (js_get bid ''winningBuyerNic'')
                   \<longrightarrow> js_get view ''buyerNic'' = js_get bid ''winningBuyerNic'')
             \<and> (\<not> truthy (js_get bid ''winningBuyerNic'')
                   \<longrightarrow> (\<forall>offers. js_get bid ''bidOffers'' = JArr offers \<and> offers \<noteq> []
                          \<longrightarrow> js_get view ''buyerNic''
                               = JStr (array_join '', ''
                                   (map (\<lambda>offer. js_get offer ''buyerNic'') offers))))
             \<and> (\<not> truthy (js_get bid ''winningBuyerNic'')
                   \<longrightarrow> (\<forall>offers nics. js_get bid ''bidOffers'' = JArr offers \<and> offers \<noteq> []
                            \<and> map (\<lambda>offer. js_get offer ''buyerNic'') offers = map JStr nics
                          \<longrightarrow> js_get view ''buyerNic'' = JStr (join_strings '', '' nics)))
             \<and> (\<not> truthy (js_get bid ''winningBuyerNic'')
                   \<and> (nullish (js_get bid ''bidOffers'') \<or> js_get bid ''bidOffers'' = JArr [])
                   \<longrightarrow> js_get view ''buyerNic'' = JStr ''-''))
             bids views"
    by blast
  from resp bids have b: "bids = [?b1, ?b2, ?b3]"
    by (auto simp: backend_ok_def)
  from views have v: "views = [?v1, ?v2, ?v3]"
    by simp
  note e = each [unfolded b v list_all2_Cons list_all2_Nil]
  note p1 = e [THEN conjunct1]
  note p2 = e [THEN conjunct2, THEN conjunct1]
  note p3 = e [THEN conjunct2, THEN conjunct2, THEN conjunct1]
  have o1: "js_get ?v1 ''bidOffers'' = JArr []"
    using p1 [THEN conjunct1] by (simp add: nullish_def)
  have n1: "js_get ?v1 ''buyerNic'' = JStr ''-''"
    using p1 [THEN conjunct2, THEN conjunct2, THEN conjunct2, THEN conjunct2, THEN conjunct2]
    by (simp add: nullish_def)
  have "\<forall>nics. map JStr [''B1'', ''B2''] = map JStr nics
           \<longrightarrow> js_get ?v2 ''buyerNic'' = JStr (join_strings '', '' nics)"
    using p2 [THEN conjunct2, THEN conjunct2, THEN conjunct2, THEN conjunct2, THEN conjunct1]
    by simp
  then have n2: "js_get ?v2 ''buyerNic'' = JStr (join_strings '', '' [''B1'', ''B2''])"
    by (rule allE [where x = "[''B1'', ''B2'']"]) (rule mp, assumption, rule refl)
  have n3: "js_get ?v3 ''buyerNic'' = JStr ''W9''"
    using p3 [THEN conjunct2, THEN conjunct2, THEN conjunct1] by simp
  from h o1 n1 n2 n3 show ?thesis
    by simp
qed


section \<open>Filters in the query of the list operations\<close>

lemma setDate_days_back:
  "setDate env (Some t) (num_sub (getDate env (Some t)) (Some n))
     = TimeClip (UTC env (LocalTime env t - n * msPerDay))"
proof -
  let ?tl = "LocalTime env t"
  have "MakeDate (monthStart env (Day ?tl) + (Day ?tl - monthStart env (Day ?tl) + 1 - n) - 1)
          (TimeWithinDay ?tl)
        = (?tl div msPerDay) * msPerDay + ?tl mod msPerDay - n * msPerDay"
    by (simp add: MakeDate_def Day_def TimeWithinDay_def algebra_simps)
  also have "\<dots> = ?tl - n * msPerDay"
    by simp
  finally show ?thesis
    by (simp add: setDate_def getDate_def num_sub_def Let_def)
qed

lemma filters_get:
  "k \<noteq> ''signal'' \<Longrightarrow>
     js_get (JObj (filter (\<lambda>kv. fst kv \<noteq> ''signal'') kvs)) k = js_get (JObj kvs) k"
  by (simp add: map_of_filter [of "\<lambda>key. key \<noteq> ''signal''"] restrict_map_def)

lemma all_bids_params_keys:
  assumes "all_bids_params env f = Inr ps"
  shows "fst ` set ps \<subseteq> {''status'', ''fromDate'', ''searchTerm''}
       \<and> (''status'' \<in> fst ` set ps
            \<longrightarrow> truthy (js_get f ''status'') \<and> js_get f ''status'' \<noteq> JStr ''all'')
       \<and> (''fromDate'' \<in> fst ` set ps \<longrightarrow> truthy (js_get f ''dateRange''))
       \<and> (''searchTerm'' \<in> fst ` set ps \<longrightarrow> truthy (js_get f ''searchTerm''))"
  using assms
  by (auto simp: all_bids_params_def Let_def bind_result_def simp del: js_get.simps
        split: if_splits sum.splits)

lemma getAllBids_sent:
  assumes "r \<in> set (net_calls (fst (getAllBids env net (JObj kvs))))"
  shows "\<exists>ps. all_bids_params env (JObj (filter (\<lambda>kv. fst kv \<noteq> ''signal'') kvs)) = Inr ps
            \<and> r = \<lparr>verb = GET, url = baseURL @ ''/admin/all'', body = JUndefined,
                    params = SearchParams ps, signal = js_get (JObj kvs) ''signal''\<rparr>"
  using assms
  by (auto simp: getAllBids_unfold simp del: js_get.simps split: sum.splits)

lemma update_subset: "set (AList.update k v al) \<subseteq> insert (k, v) (set al)"
  by (induction al) auto

lemma clean_fold_subset:
  "set (foldl (\<lambda>acc kv.
              if truthy (snd kv) \<and> snd kv \<noteq> JStr ''ALL'' \<and> snd kv \<noteq> JStr []
              then AList.update (fst kv) (snd kv) acc else acc) acc entries)
     \<subseteq> set acc \<union> {kv \<in> set entries. truthy (snd kv) \<and> snd kv \<noteq> JStr ''ALL''}"
proof (induction entries arbitrary: acc)
  case Nil
  then show ?case by simp
next
  case (Cons kv entries)
  show ?case
    using Cons.IH [of "if truthy (snd kv) \<and> snd kv \<noteq> JStr ''ALL'' \<and> snd kv \<noteq> JStr []
                       then AList.update (fst kv) (snd kv) acc else acc"]
          update_subset [of "fst kv" "snd kv" acc]
    by (auto split: if_splits)
qed

lemma clean_filters_subset:
  "set (clean_filters entries)
     \<subseteq> {kv \<in> set entries. truthy (snd kv) \<and> snd kv \<noteq> JStr ''ALL''}"
  using clean_fold_subset [of "[]" entries] by (simp add: clean_filters_def)

lemma getFilteredBids_sent:
  assumes "r \<in> set (net_calls (fst (getFilteredBids env net (JObj kvs))))"
  shows "r = \<lparr>verb = GET, url = baseURL @ ''/active'', body = JUndefined,
               params = PlainParams (clean_filters kvs), signal = JUndefined\<rparr>"
  using assms
  by (auto simp: getFilteredBids_def Let_def object_entries_def nullish_def axios_get_def
        try_catch_call split: sum.splits)

lemma parseInt_7: "parseInt (JStr ''7'') = Some 7"
  by code_simp

lemma week_params:
  assumes "\<bar>UTC env (LocalTime env (now env) - 7 * msPerDay)\<bar> \<le> 8640000000000000"
  shows "all_bids_params env
           (JObj (filter (\<lambda>kv. fst kv \<noteq> ''signal'')
              [(''status'', JStr ''ACTIVE''), (''dateRange'', JStr ''7'')]))
         = Inr [(''status'', ''ACTIVE''),
                (''fromDate'', toISO env (UTC env (LocalTime env (now env) - 7 * msPerDay)))]"
  using assms
  by (simp add: all_bids_params_def Let_def bind_result_def parseInt_7 new_Date_now_def
        setDate_days_back TimeClip_def toISOString_def)

lemma week_request:
  assumes "\<bar>UTC env (LocalTime env (now env) - 7 * msPerDay)\<bar> \<le> 8640000000000000"
  shows "net_calls (fst (getAllBids env net
            (JObj [(''status'', JStr ''ACTIVE''), (''dateRange'', JStr ''7'')])))
         = [\<lparr>verb = GET, url = ''/bids/admin/all'', body = JUndefined,
             params = SearchParams
               [(''status'', ''ACTIVE''),
                (''fromDate'', toISO env (UTC env (LocalTime env (now env) - 7 * msPerDay)))],
             signal = JUndefined\<rparr>]"
  using week_params [OF assms]
  by (simp add: getAllBids_unfold baseURL_def split: sum.splits)

lemma fixed_offset:
  assumes "\<forall>t u. localTZA env t u = offset"
  shows "UTC env (LocalTime env t - n * msPerDay) = t - n * msPerDay"
  using assms by (simp add: UTC_def LocalTime_def)


text \<open>
  C2 (as amended). For a filter object, the query of \<open>getAllBids\<close> holds no parameter
  but \<open>status\<close>, \<open>fromDate\<close> and \<open>searchTerm\<close>; \<open>status\<close> is left out when the filter is
  empty or the sentinel \<open>all\<close>, \<open>fromDate\<close> when \<open>dateRange\<close> is empty, \<open>searchTerm\<close> when
  it is empty. The query of \<open>getFilteredBids\<close> holds filters of the caller only, none of
  them empty or the sentinel \<open>ALL\<close>. For the filters \<open>status: ACTIVE, dateRange: 7\<close> the
  query of \<open>getAllBids\<close> is \<open>status=ACTIVE\<close> and the \<open>fromDate\<close> whose local time is
  seven days of 24 hours before the local time of now, and nothing else; in a zone
  with a fixed offset that instant is now minus seven days.
\<close>

theorem list_filters_in_query:
  "(\<forall>r \<in> set (net_calls (fst (getAllBids env net (JObj kvs)))).
      \<exists>ps. params r = SearchParams ps
         \<and> fst ` set ps \<subseteq> {''status'', ''fromDate'', ''searchTerm''}
         \<and> (\<not> truthy (js_get (JObj kvs) ''status'') \<or> js_get (JObj kvs) ''status'' = JStr ''all''
              \<longrightarrow> ''status'' \<notin> fst ` set ps)
         \<and> (\<not> truthy (js_get (JObj kvs) ''dateRange'') \<longrightarrow> ''fromDate'' \<notin> fst ` set ps)
         \<and> (\<not> truthy (js_get (JObj kvs) ''searchTerm'') \<longrightarrow> ''searchTerm'' \<notin> fst ` set ps))
   \<and> (\<forall>r \<in> set (net_calls (fst (getFilteredBids env net (JObj kvs)))).
      \<exists>ps. params r = PlainParams ps
         \<and> set ps \<subseteq> set kvs
         \<and> (\<forall>kv \<in> set ps. truthy (snd kv) \<and> snd kv \<noteq> JStr ''ALL'')
         \<and> (distinct (map fst kvs)
              \<longrightarrow> (\<forall>kv \<in> set kvs. \<not> truthy (snd kv) \<or> snd kv = JStr ''ALL''
                     \<longrightarrow> fst kv \<notin> fst ` set ps)))
   \<and> (\<bar>UTC env (LocalTime env (now env) - 7 * msPerDay)\<bar> \<le> 8640000000000000
        \<longrightarrow> net_calls (fst (getAllBids env net
               (JObj [(''status'', JStr ''ACTIVE''), (''dateRange'', JStr ''7'')])))
            = [\<lparr>verb = GET, url = ''/bids/admin/all'', body = JUndefined,
                params = SearchParams
                  [(''status'', ''ACTIVE''),
                   (''fromDate'',
                    toISO env (UTC env (LocalTime env (now env) - 7 * msPerDay)))],
                signal = JUndefined\<rparr>])
   \<and> ((\<forall>t u. localTZA env t u = offset)
        \<longrightarrow> UTC env (LocalTime env (now env) - 7 * msPerDay) = now env - 7 * msPerDay)"
proof (intro conjI ballI impI)
  fix r
  assume "r \<in> set (net_calls (fst (getAllBids env net (JObj kvs))))"
  from getAllBids_sent [OF this] obtain ps where
    ps: "all_bids_params env (JObj (filter (\<lambda>kv. fst kv \<noteq> ''signal'') kvs)) = Inr ps"
    and r: "params r = SearchParams ps"
    by auto
  have same: "js_get (JObj (filter (\<lambda>kv. fst kv \<noteq> ''signal'') kvs)) ''status''
                = js_get (JObj kvs) ''status''"
             "js_get (JObj (filter (\<lambda>kv. fst kv \<noteq> ''signal'') kvs)) ''dateRange''
                = js_get (JObj kvs) ''dateRange''"
             "js_get (JObj (filter (\<lambda>kv. fst kv \<noteq> ''signal'') kvs)) ''searchTerm''
                = js_get (JObj kvs) ''searchTerm''"
    by (rule filters_get, simp)+
  from all_bids_params_keys [OF ps, unfolded same] r
  show "\<exists>ps. params r = SearchParams ps
         \<and> fst ` set ps \<subseteq> {''status'', ''fromDate'', ''searchTerm''}
         \<and> (\<not> truthy (js_get (JObj kvs) ''status'') \<or> js_get (JObj kvs) ''status'' = JStr ''all''
              \<longrightarrow> ''status'' \<notin> fst ` set ps)
         \<and> (\<not> truthy (js_get (JObj kvs) ''dateRange'') \<longrightarrow> ''fromDate'' \<notin> fst ` set ps)
         \<and> (\<not> truthy (js_get (JObj kvs) ''searchTerm'') \<longrightarrow> ''searchTerm'' \<notin> fst ` set ps)"
    by blast
next
  fix r
  assume "r \<in> set (net_calls (fst (getFilteredBids env net (JObj kvs))))"
  from getFilteredBids_sent [OF this]
  have r: "params r = PlainParams (clean_filters kvs)"
    by simp
  note sub = clean_filters_subset [of kvs]
  have omitted: "fst kv \<notin> fst ` set (clean_filters kvs)"
    if d: "distinct (map fst kvs)" and kv: "kv \<in> set kvs"
      and bad: "\<not> truthy (snd kv) \<or> snd kv = JStr ''ALL''" for kv
  proof
    assume "fst kv \<in> fst ` set (clean_filters kvs)"
    then obtain kv' where kv': "kv' \<in> set (clean_filters kvs)" and k: "fst kv' = fst kv"
      by auto
    from kv' sub have in': "kv' \<in> set kvs" and good: "truthy (snd kv') \<and> snd kv' \<noteq> JStr ''ALL''"
      by auto
    from d kv in' k have "snd kv' = snd kv"
      using eq_key_imp_eq_value [of kvs "fst kv" "snd kv'" "snd kv"]
      by (metis prod.collapse)
    with good bad show False
      by auto
  qed
  from r sub omitted
  show "\<exists>ps. params r = PlainParams ps
         \<and> set ps \<subseteq> set kvs
         \<and> (\<forall>kv \<in> set ps. truthy (snd kv) \<and> snd kv \<noteq> JStr ''ALL'')
         \<and> (distinct (map fst kvs)
              \<longrightarrow> (\<forall>kv \<in> set kvs. \<not> truthy (snd kv) \<or> snd kv = JStr ''ALL''
                     \<longrightarrow> fst kv \<notin> fst ` set ps))"
    by (intro exI [of _ "clean_filters kvs"] conjI) auto
next
  assume "\<bar>UTC env (LocalTime env (now env) - 7 * msPerDay)\<bar> \<le> 8640000000000000"
  then show "net_calls (fst (getAllBids env net
               (JObj [(''status'', JStr ''ACTIVE''), (''dateRange'', JStr ''7'')])))
            = [\<lparr>verb = GET, url = ''/bids/admin/all'', body = JUndefined,
                params = SearchParams
                  [(''status'', ''ACTIVE''),
                   (''fromDate'',
                    toISO env (UTC env (LocalTime env (now env) - 7 * msPerDay)))],
                signal = JUndefined\<rparr>]"
    by (rule week_request)
next
  assume "\<forall>t u. localTZA env t u = offset"
  then show "UTC env (LocalTime env (now env) - 7 * msPerDay) = now env - 7 * msPerDay"
    by (rule fixed_offset)
qed


theorem list_filters_in_query_witness:
  "\<bar>UTC sample_env (LocalTime sample_env (now sample_env) - 7 * msPerDay)\<bar>
      \<le> 8640000000000000
   \<and> UTC sample_env (LocalTime sample_env (now sample_env) - 7 * msPerDay)
       = now sample_env - 7 * msPerDay
   \<and> now sample_env - 7 * msPerDay = 1699395200000
   \<and> toISO sample_env 1699395200000 = ''2023-11-07T22:13:20.000Z''
   \<and> net_calls (fst (getAllBids sample_env (backend_ok (JArr []))
         (JObj [(''status'', JStr ''ACTIVE''), (''dateRange'', JStr ''7'')])))
       = [\<lparr>verb = GET, url = ''/bids/admin/all'', body = JUndefined,
           params = SearchParams
             [(''status'', ''ACTIVE''), (''fromDate'', ''2023-11-07T22:13:20.000Z'')],
           signal = JUndefined\<rparr>]
   \<and> net_calls (fst (getAllBids sample_env (backend_ok (JArr []))
         (JObj [(''status'', JStr ''all''), (''searchTerm'', JStr []),
                (''district'', JStr ''ALL'')])))
       = [\<lparr>verb = GET, url = ''/bids/admin/all'', body = JUndefined,
           params = SearchParams [], signal = JUndefined\<rparr>]
   \<and> net_calls (fst (getFilteredBids sample_env (backend_ok (JArr []))
         (JObj [(''status'', JStr ''ACTIVE''), (''searchTerm'', JStr []),
                (''district'', JStr ''ALL'')])))
       = [\<lparr>verb = GET, url = ''/bids/active'', body = JUndefined,
           params = PlainParams [(''status'', JStr ''ACTIVE'')], signal = JUndefined\<rparr>]"
proof -
  have omitted: "net_calls (fst (getAllBids sample_env (backend_ok (JArr []))
         (JObj [(''status'', JStr ''all''), (''searchTerm'', JStr []),
                (''district'', JStr ''ALL'')])))
       = [\<lparr>verb = GET, url = ''/bids/admin/all'', body = JUndefined,
           params = SearchParams [], signal = JUndefined\<rparr>]"
    by code_simp
  have cleaned: "net_calls (fst (getFilteredBids sample_env (backend_ok (JArr []))
         (JObj [(''status'', JStr ''ACTIVE''), (''searchTerm'', JStr []),
                (''district'', JStr ''ALL'')])))
       = [\<lparr>verb = GET, url = ''/bids/active'', body = JUndefined,
           params = PlainParams [(''status'', JStr ''ACTIVE'')], signal = JUndefined\<rparr>]"
    by code_simp
  have range: "\<bar>UTC sample_env (LocalTime sample_env (now sample_env) - 7 * msPerDay)\<bar>
                 \<le> 8640000000000000"
    by code_simp
  have zone: "\<forall>t u. localTZA sample_env t u = 19800000"
    by (simp add: sample_env_def)
  have week: "now sample_env - 7 * msPerDay = 1699395200000"
    by (simp add: sample_env_def msPerDay_def)
  have str: "toISO sample_env 1699395200000 = ''2023-11-07T22:13:20.000Z''"
    by code_simp
  note inst = list_filters_in_query [of sample_env "backend_ok (JArr [])" "[]" 19800000]
  from inst zone have shift: "UTC sample_env (LocalTime sample_env (now sample_env) - 7 * msPerDay)
       = now sample_env - 7 * msPerDay"
    by blast
  from inst range have "net_calls (fst (getAllBids sample_env (backend_ok (JArr []))
         (JObj [(''status'', JStr ''ACTIVE''), (''dateRange'', JStr ''7'')])))
       = [\<lparr>verb = GET, url = ''/bids/admin/all'', body = JUndefined,
           params = SearchParams
             [(''status'', ''ACTIVE''),
              (''fromDate'', toISO sample_env
                 (UTC sample_env (LocalTime sample_env (now sample_env) - 7 * msPerDay)))],
           signal = JUndefined\<rparr>]"
    by blast
  then have "net_calls (fst (getAllBids sample_env (backend_ok (JArr []))
         (JObj [(''status'', JStr ''ACTIVE''), (''dateRange'', JStr ''7'')])))
       = [\<lparr>verb = GET, url = ''/bids/admin/all'', body = JUndefined,
           params = SearchParams
             [(''status'', ''ACTIVE''), (''fromDate'', ''2023-11-07T22:13:20.000Z'')],
           signal = JUndefined\<rparr>]"
    by (simp only: shift week str)
  with range shift week str omitted cleaned show ?thesis
    by (intro conjI)
qed


text \<open>
  C2 as stated fails: the sentinel \<open>all\<close> is honoured for the \<open>status\<close> filter of
  \<open>getAllBids\<close> alone. A \<open>searchTerm\<close> filter whose value is \<open>all\<close> is sent.
\<close>

theorem search_term_all_is_sent:
  "js_get (JObj [(''searchTerm'', JStr ''all'')]) ''searchTerm'' = JStr ''all''
   \<and> net_calls (fst (getAllBids sample_env (backend_ok (JArr []))
         (JObj [(''searchTerm'', JStr ''all'')])))
       = [\<lparr>verb = GET, url = ''/bids/admin/all'', body = JUndefined,
           params = SearchParams [(''searchTerm'', ''all'')], signal = JUndefined\<rparr>]"
  by code_simp


text \<open>
  Two more inputs: \<open>getFilteredBids\<close> drops \<open>ALL\<close> and the empty string but sends a filter
  whose value is \<open>all\<close>; and \<open>getAllBids\<close> with \<open>dateRange: all\<close> sends nothing, since
  \<open>parseInt\<close> yields \<open>NaN\<close> and \<open>toISOString\<close> throws on the invalid date.
\<close>

lemma getFilteredBids_keeps_lowercase_all:
  "net_calls (fst (getFilteredBids sample_env (backend_ok (JArr []))
         (JObj [(''status'', JStr ''all''), (''district'', JStr ''ALL''),
                (''type'', JStr [])])))
       = [\<lparr>verb = GET, url = ''/bids/active'', body = JUndefined,
           params = PlainParams [(''status'', JStr ''all'')], signal = JUndefined\<rparr>]"
  by code_simp

lemma getAllBids_date_range_all_throws:
  "getAllBids sample_env (backend_ok (JArr [])) (JObj [(''dateRange'', JStr ''all'')])
     = ([Console ''API Error:'' [LErr (new_Error ''Invalid time value'')]],
        Inl (new_Error ''Invalid time value''))"
  by code_simp

end
